theory Spec2Isabelle
  imports Main "HOL-Library.Word" "HOL-Library.Sublist"
begin

unbundle bit_operations_syntax

section \<open>Byte buffers\<close>

text \<open>
  A Node.js \<open>Buffer\<close> is a list of bytes. JavaScript numbers that index or count bytes
  are integers here; they may be negative (\<open>stream.skip(-0x8)\<close>).
\<close>

type_synonym byte = "8 word"
type_synonym bytes = "byte list"

datatype error = RangeError

text \<open>
  \<open>Buffer.prototype.subarray(start, end)\<close> of the Node.js runtime: both indices are
  clamped into the buffer, a negative index counts from the end, and an empty buffer is
  returned when the end does not lie behind the start. It never raises.
\<close>

definition adjustOffset :: "int \<Rightarrow> nat \<Rightarrow> nat" where
  "adjustOffset off len =
     (if off < 0 then (if off + int len > 0 then nat (off + int len) else 0)
      else if off < int len then nat off
      else len)"

definition subarray :: "bytes \<Rightarrow> int \<Rightarrow> int \<Rightarrow> bytes" where
  "subarray b start end =
     (let s = adjustOffset start (length b);
          e = adjustOffset end (length b)
      in if e > s then take (e - s) (drop s b) else [])"

text \<open>
  The fixed-width readers of \<open>Buffer\<close>, called at offset 0 on the bytes a stream read
  returned. They raise a \<open>RangeError\<close> when the buffer is shorter than the width.
\<close>

fun buf_readUInt8 :: "bytes \<Rightarrow> error + nat" where
  "buf_readUInt8 (b0 # _) = Inr (unat b0)"
| "buf_readUInt8 _ = Inl RangeError"

fun buf_readUInt16LE :: "bytes \<Rightarrow> error + nat" where
  "buf_readUInt16LE (b0 # b1 # _) = Inr (unat b0 + 256 * unat b1)"
| "buf_readUInt16LE _ = Inl RangeError"

fun buf_readUInt16BE :: "bytes \<Rightarrow> error + nat" where
  "buf_readUInt16BE (b0 # b1 # _) = Inr (256 * unat b0 + unat b1)"
| "buf_readUInt16BE _ = Inl RangeError"

fun buf_readUInt32BE :: "bytes \<Rightarrow> error + nat" where
  "buf_readUInt32BE (b0 # b1 # b2 # b3 # _) =
     Inr (16777216 * unat b0 + 65536 * unat b1 + 256 * unat b2 + unat b3)"
| "buf_readUInt32BE _ = Inl RangeError"

section \<open>Stream (src/stream.js)\<close>

text \<open>
  The cursor-based reader: the buffer, the offset and the connection reference given to
  the constructor (absent when the parser builds a stream over a frame or a payload).
\<close>

record stream =
  connection :: "nat option"
  buffer :: bytes
  offset :: int

definition Stream :: "bytes \<Rightarrow> nat option \<Rightarrow> stream" where
  "Stream b c = \<lparr>connection = c, buffer = b, offset = 0\<rparr>"

definition hasDataLeft :: "stream \<Rightarrow> bool" where
  "hasDataLeft s = (offset s < int (length (buffer s)))"

definition remaining :: "stream \<Rightarrow> int" where
  "remaining s = int (length (buffer s)) - offset s"

definition skip :: "int \<Rightarrow> stream \<Rightarrow> stream" where
  "skip v s = s\<lparr>offset := offset s + v\<rparr>"

definition read :: "int \<Rightarrow> stream \<Rightarrow> bytes \<times> stream" where
  "read len s =
     (subarray (buffer s) (offset s) (offset s + len), s\<lparr>offset := offset s + len\<rparr>)"

definition readBytes :: "int \<Rightarrow> stream \<Rightarrow> bytes \<times> stream" where
  "readBytes len s = read len s"

definition readRest :: "stream \<Rightarrow> bytes \<times> stream" where
  "readRest s = readBytes (remaining s) s"

text \<open>
  The integer readers first take the bytes with \<open>readBytes\<close>, which moves the cursor,
  and then decode them; the decoding may raise, the cursor has moved all the same.
\<close>

definition readUInt8 :: "stream \<Rightarrow> (error + nat) \<times> stream" where
  "readUInt8 s = (buf_readUInt8 (fst (readBytes 1 s)), snd (readBytes 1 s))"

definition readUInt16BE :: "stream \<Rightarrow> (error + nat) \<times> stream" where
  "readUInt16BE s = (buf_readUInt16BE (fst (readBytes 2 s)), snd (readBytes 2 s))"

definition readUInt16LE :: "stream \<Rightarrow> (error + nat) \<times> stream" where
  "readUInt16LE s = (buf_readUInt16LE (fst (readBytes 2 s)), snd (readBytes 2 s))"

definition readUInt32BE :: "stream \<Rightarrow> (error + nat) \<times> stream" where
  "readUInt32BE s = (buf_readUInt32BE (fst (readBytes 4 s)), snd (readBytes 4 s))"

section \<open>NEXParser (src/parser.js): the Frame Extractor\<close>

definition MAGIC_SERVERBOUND :: bytes where
  "MAGIC_SERVERBOUND = [0xAF, 0xA1]"

definition MAGIC_CLIENTBOUND :: bytes where
  "MAGIC_CLIENTBOUND = [0xA1, 0xAF]"

definition MAGIC_V1 :: bytes where
  "MAGIC_V1 = [0xEA, 0xD0]"

definition XID_MAGIC :: bytes where
  "XID_MAGIC = [0x81, 0x01, 0x00]"

text \<open>
  A template literal renders a non-negative integer in decimal.
\<close>

definition digit :: "nat \<Rightarrow> char" where
  "digit d = ''0123456789'' ! d"

fun string_of_nat :: "nat \<Rightarrow> string" where
  "string_of_nat n =
     (if n < 10 then [digit n]
      else string_of_nat (n div 10) @ [digit (n mod 10)])"

declare string_of_nat.simps [simp del]

text \<open>
  \<open>int2ip\<close>: \<open>>>>\<close> shifts the unsigned 32-bit value, \<open>>>\<close> the signed one, and
  \<open>& 255\<close> keeps the low byte.
\<close>

definition int2ip :: "nat \<Rightarrow> string" where
  "int2ip n =
     (let w = (word_of_nat n :: 32 word) in
      string_of_nat (unat (drop_bit 24 w)) @ ''.'' @
      string_of_nat (unat (signed_drop_bit 16 w AND 255)) @ ''.'' @
      string_of_nat (unat (signed_drop_bit 8 w AND 255)) @ ''.'' @
      string_of_nat (unat (w AND 255)))"

record udpPacket =
  source :: string
  destination :: string
  sourcePort :: nat
  destinationPort :: nat
  payload :: bytes

text \<open>
  \<open>parseUDPPacket\<close> returns the carved UDP packet, or nothing (\<open>None\<close>) for a frame
  that is not applicable; an integer read on a frame that is too short raises.
\<close>

definition parseUDPPacket :: "bytes \<Rightarrow> error + udpPacket option" where
  "parseUDPPacket frame =
     (if subarray frame 17 20 = XID_MAGIC then Inr None
      else
        let s0 = Stream frame None;
            s1 = skip 0xE s0;
            s2 = skip 0x9 s1;
            (protocol, s3) = readUInt8 s2
        in case protocol of
             Inl e \<Rightarrow> Inl e
           | Inr proto \<Rightarrow>
               if proto \<noteq> 0x11 then Inr None
               else
                 let s4 = skip 0x2 s3;
                     (src, s5) = readUInt32BE s4
                 in case src of
                      Inl e \<Rightarrow> Inl e
                    | Inr srcInt \<Rightarrow>
                 let (dst, s6) = readUInt32BE s5
                 in case dst of
                      Inl e \<Rightarrow> Inl e
                    | Inr dstInt \<Rightarrow>
                 let (sp, s7) = readUInt16BE s6
                 in case sp of
                      Inl e \<Rightarrow> Inl e
                    | Inr sPort \<Rightarrow>
                 let (dp, s8) = readUInt16BE s7
                 in case dp of
                      Inl e \<Rightarrow> Inl e
                    | Inr dPort \<Rightarrow>
                 let (ul, s9) = readUInt16BE s8
                 in case ul of
                      Inl e \<Rightarrow> Inl e
                    | Inr udpPacketLength \<Rightarrow>
                 let s10 = skip 0x2 s9;
                     (pl, s11) = readBytes (int udpPacketLength - 0x8) s10
                 in Inr (Some \<lparr>source = int2ip srcInt, destination = int2ip dstInt,
                               sourcePort = sPort, destinationPort = dPort,
                               payload = pl\<rparr>))"

section \<open>Connections and the parser state\<close>

text \<open>
  Modelled from the spec: the stream-cipher state of a connection (\<open>connection.js\<close> is
  not among the sources). An RC4 state is determined by the key it was seeded with and
  the number of keystream bytes drawn since; seeding gives position 0.
\<close>

datatype rc4state = RC4 bytes nat

record stationURL =
  address :: string
  port :: string

text \<open>
  The fields of a \<open>Connection\<close> that the parser reads or writes, with the cipher states
  of the spec's data model.
\<close>

record connection =
  discriminator :: string
  clientAddress :: string
  serverAddress :: string
  accessKey :: bytes
  accessKeySum :: bytes
  signatureKey :: bytes
  sessionKey :: bytes
  rc4ClientState :: rc4state
  rc4ServerState :: rc4state
  prudpVersion :: nat
  title :: string
  isSecureServer :: bool
  checkForSecureServer :: bool
  secureServerStationURL :: "stationURL option"

text \<open>
  A packet object is known by the decoder that built it and the two arguments it was
  built from: the reference of its connection and the buffer handed to the decoder
  (\<open>packetv0.js\<close> and \<open>packetv1.js\<close> are not among the sources).
\<close>

datatype packet = PacketV0 nat bytes | PacketV1 nat bytes

text \<open>
  What the parser takes from outside: the \<open>private-ip\<close> predicate, the values the
  \<open>Connection\<close> constructor gives to the fields other than the discriminator, and
  \<open>Connection.handlePacket\<close>, which updates the connection it is called on.
\<close>

record collab =
  isPrivateIP :: "string \<Rightarrow> bool"
  blank :: connection
  conn_handlePacket :: "connection \<Rightarrow> packet \<Rightarrow> connection"

text \<open>
  Modelled from the spec: the constructor \<open>new Connection(discriminator)\<close> sets the
  identity key; the other fields start from the constructor's defaults.
\<close>

definition Connection :: "collab \<Rightarrow> string \<Rightarrow> connection" where
  "Connection env d = (blank env)\<lparr>discriminator := d\<rparr>"

text \<open>
  Modelled from the spec: \<open>Connection.setRC4Key\<close> seeds the cipher states of both
  directions from the key.
\<close>

definition setRC4Key :: "bytes \<Rightarrow> connection \<Rightarrow> connection" where
  "setRC4Key key c = c\<lparr>rc4ClientState := RC4 key 0, rc4ServerState := RC4 key 0\<rparr>"

text \<open>
  Connections are objects: the registry \<open>this.connections\<close> holds references, and the
  same object may be referred to from several places. The heap maps a reference to the
  object's current fields; \<open>nextRef\<close> is the next unused reference. The events emitted
  so far are kept in order.
\<close>

datatype event = ConnectionEvent nat | PacketEvent packet

record pstate =
  heap :: "nat \<Rightarrow> connection"
  nextRef :: nat
  connections :: "nat list"
  events :: "event list"

datatype outcome = Returned pstate | Threw error pstate

text \<open>\<open>Array.prototype.findLast\<close>: the last element that satisfies the predicate.\<close>

definition findLast :: "('a \<Rightarrow> bool) \<Rightarrow> 'a list \<Rightarrow> 'a option" where
  "findLast P xs = find P (rev xs)"

definition lookupConnection :: "string \<Rightarrow> pstate \<Rightarrow> nat option" where
  "lookupConnection d st = findLast (\<lambda>r. discriminator (heap st r) = d) (connections st)"

text \<open>
  Lines 81 to 94 of \<open>handlePacket\<close>: the discriminator, the client address and the
  server address of a UDP packet.
\<close>

definition direction :: "collab \<Rightarrow> udpPacket \<Rightarrow> string \<times> string \<times> string" where
  "direction env u =
     (if isPrivateIP env (source u)
      then (let d = destination u @ '':'' @ string_of_nat (destinationPort u)
            in (d, source u @ '':'' @ string_of_nat (sourcePort u), d))
      else (let d = source u @ '':'' @ string_of_nat (sourcePort u)
            in (d, destination u @ '':'' @ string_of_nat (destinationPort u), d)))"

section \<open>NEXParser: the Packet Framer\<close>

text \<open>
  One pass of the loop body up to the construction of the packet (lines 113 to 142):
  a packet and the stream behind it, or the early return after \<open>readRest\<close>, or the
  error an integer read raised.
\<close>

datatype carved = Carved packet stream | Discarded stream | Raised error

definition carve :: "bytes \<Rightarrow> nat \<Rightarrow> stream \<Rightarrow> carved" where
  "carve udpPayload conn s0 =
     (let (magic, s1) = readBytes 0x2 s0 in
      if magic = MAGIC_V1 then
        (let s2 = skip 0x1 s1;
             (psdl, s3) = readUInt8 s2
         in case psdl of
              Inl e \<Rightarrow> Raised e
            | Inr packetSpecificDataLength \<Rightarrow>
         let (ps, s4) = readUInt16LE s3
         in case ps of
              Inl e \<Rightarrow> Raised e
            | Inr payloadSize \<Rightarrow>
         let (source_destination, s5) = readBytes 0x2 s4
         in if source_destination = MAGIC_SERVERBOUND \<or> source_destination = MAGIC_CLIENTBOUND
            then
              (let s6 = skip (- 0x8) s5;
                   (span, s7) =
                     readBytes (2 + 12 + 16 + int packetSpecificDataLength + int payloadSize) s6
               in Carved (PacketV1 conn span) s7)
            else Discarded (snd (readRest s5)))
      else if magic = MAGIC_SERVERBOUND \<or> magic = MAGIC_CLIENTBOUND then
        Carved (PacketV0 conn udpPayload) s1
      else Discarded (snd (readRest s1)))"

text \<open>Lines 145 to 148: the registration of a connection created for this datagram.\<close>

definition register :: "bool \<Rightarrow> nat \<Rightarrow> pstate \<Rightarrow> pstate" where
  "register newConnection conn st =
     (if newConnection
      then st\<lparr>connections := connections st @ [conn],
              events := events st @ [ConnectionEvent conn]\<rparr>
      else st)"

text \<open>Line 150: \<open>connection.handlePacket(packet)\<close> updates the object in place.\<close>

definition deliver :: "collab \<Rightarrow> nat \<Rightarrow> packet \<Rightarrow> pstate \<Rightarrow> pstate" where
  "deliver env conn p st =
     st\<lparr>heap := (heap st)(conn := conn_handlePacket env (heap st conn) p)\<rparr>"

text \<open>Lines 152 to 181: the secure-server check.\<close>

definition secureServerCheck :: "collab \<Rightarrow> nat \<Rightarrow> pstate \<Rightarrow> pstate" where
  "secureServerCheck env conn st =
     (let c = heap st conn in
      case secureServerStationURL c of
        None \<Rightarrow> st
      | Some url \<Rightarrow>
          if \<not> checkForSecureServer c then st
          else
            let secureDiscriminator = address url @ '':'' @ port url;
                st1 =
                  (if discriminator c \<noteq> secureDiscriminator
                   then
                     (let secureConnection =
                            (setRC4Key (sessionKey c) (Connection env secureDiscriminator))
                              \<lparr>accessKey := accessKey c,
                               accessKeySum := accessKeySum c,
                               signatureKey := signatureKey c,
                               sessionKey := sessionKey c,
                               prudpVersion := prudpVersion c,
                               title := title c,
                               isSecureServer := True,
                               clientAddress := clientAddress c,
                               serverAddress := secureDiscriminator\<rparr>;
                          r = nextRef st
                      in st\<lparr>heap := (heap st)(r := secureConnection),
                              nextRef := r + 1,
                              connections := connections st @ [r]\<rparr>)
                   else
                     st\<lparr>heap := (heap st)
                          (conn := setRC4Key (sessionKey c) (c\<lparr>isSecureServer := True\<rparr>))\<rparr>)
            in st1\<lparr>heap := (heap st1)
                    (conn := (heap st1 conn)\<lparr>checkForSecureServer := False\<rparr>)\<rparr>)"

text \<open>Lines 144 to 183: what the loop body does with a carved packet.\<close>

definition afterCarve :: "collab \<Rightarrow> bool \<Rightarrow> nat \<Rightarrow> packet \<Rightarrow> pstate \<Rightarrow> pstate" where
  "afterCarve env newConnection conn p st =
     (let st1 = register newConnection conn st;
          st2 = deliver env conn p st1;
          st3 = secureServerCheck env conn st2
      in st3\<lparr>events := events st3 @ [PacketEvent p]\<rparr>)"

text \<open>
  The framer leaves the buffer alone, and a carved packet leaves the cursor behind the
  place where the pass began: the loop ends.
\<close>

lemma carve_advances:
  assumes "carve udpPayload conn s = Carved p s'"
  shows "buffer s' = buffer s \<and> offset s + 2 \<le> offset s'"
  using assms
  by (auto simp: carve_def readBytes_def read_def skip_def readUInt8_def readUInt16LE_def
      Let_def split: if_splits sum.splits prod.splits)

text \<open>
  Lines 112 to 184: the loop over the UDP payload. \<open>newConnection\<close> is set before the
  loop and the loop never assigns it.
\<close>

function frameLoop ::
  "collab \<Rightarrow> bytes \<Rightarrow> nat \<Rightarrow> bool \<Rightarrow> stream \<Rightarrow> pstate \<Rightarrow> outcome" where
  "frameLoop env udpPayload conn newConnection s st =
     (if hasDataLeft s then
        (case carve udpPayload conn s of
           Raised e \<Rightarrow> Threw e st
         | Discarded _ \<Rightarrow> Returned st
         | Carved p s' \<Rightarrow>
             frameLoop env udpPayload conn newConnection s'
               (afterCarve env newConnection conn p st))
      else Returned st)"
  by pat_completeness auto
termination
proof (relation "measure (\<lambda>(env, udpPayload, conn, newConnection, s, st).
                    nat (int (length (buffer s)) - offset s))")
  show "wf (measure (\<lambda>(env, udpPayload, conn, newConnection, s, st).
                    nat (int (length (buffer s)) - offset s)))"
    by simp
next
  fix env :: collab and udpPayload conn newConnection s and st :: pstate and p s'
  assume left: "hasDataLeft s" and c: "carve udpPayload conn s = Carved p s'"
  from carve_advances [OF c] left
  show "((env, udpPayload, conn, newConnection, s', afterCarve env newConnection conn p st),
         (env, udpPayload, conn, newConnection, s, st))
        \<in> measure (\<lambda>(env, udpPayload, conn, newConnection, s, st).
                    nat (int (length (buffer s)) - offset s))"
    by (simp add: hasDataLeft_def)
qed

declare frameLoop.simps [simp del]

text \<open>\<open>handlePacket\<close>, lines 62 to 185.\<close>

definition handlePacket :: "collab \<Rightarrow> bytes \<Rightarrow> pstate \<Rightarrow> outcome" where
  "handlePacket env frame st =
     (case parseUDPPacket frame of
        Inl e \<Rightarrow> Threw e st
      | Inr None \<Rightarrow> Returned st
      | Inr (Some udp) \<Rightarrow>
          (let (d, clientAddr, serverAddr) = direction env udp in
           case lookupConnection d st of
             Some conn \<Rightarrow>
               frameLoop env (payload udp) conn False (Stream (payload udp) None) st
           | None \<Rightarrow>
               (let conn = nextRef st;
                    st1 = st\<lparr>heap := (heap st)
                               (conn := (Connection env d)
                                  \<lparr>clientAddress := clientAddr, serverAddress := serverAddr\<rparr>),
                             nextRef := conn + 1\<rparr>
                in frameLoop env (payload udp) conn True (Stream (payload udp) None) st1)))"

text \<open>
  The registry is well formed when every reference in it has been allocated.
\<close>

definition wf_registry :: "pstate \<Rightarrow> bool" where
  "wf_registry st = list_all (\<lambda>r. r < nextRef st) (connections st)"

section \<open>The Service Item dispatcher (src/unnamed/part_000)\<close>

text \<open>
  The static methods of \<open>ServiceItem\<close> that \<open>Handlers\<close> refers to, one per method.
\<close>

datatype service_method =
    GetEnvironment | HttpGetRequest | HttpGetResponse
  | PurchaseServiceItemRequest | PurchaseServiceItemResponse
  | ListServiceItemRequest | ListServiceItemResponse
  | GetBalanceRequest | GetBalanceResponse
  | GetPrepurchaseInfoRequest | GetPrepurchaseInfoResponse
  | GetServiceItemRightRequest | GetServiceItemRightResponse
  | GetPurchaseHistoryRequest | GetPurchaseHistoryResponse
  | PostRightBinaryByAccount
  | UseServiceItemByAccountRequest | UseServiceItemByAccountResponse
  | AcquireServiceItemByAccount | GetSupportId
  | GetLawMessageRequest | GetLawMessageResponse

definition Methods :: "(service_method \<times> nat) list" where
  "Methods =
     [(GetEnvironment, 0x01), (HttpGetRequest, 0x02), (HttpGetResponse, 0x03),
      (PurchaseServiceItemRequest, 0x04), (PurchaseServiceItemResponse, 0x05),
      (ListServiceItemRequest, 0x06), (ListServiceItemResponse, 0x07),
      (GetBalanceRequest, 0x08), (GetBalanceResponse, 0x09),
      (GetPrepurchaseInfoRequest, 0x0a), (GetPrepurchaseInfoResponse, 0x0b),
      (GetServiceItemRightRequest, 0x0c), (GetServiceItemRightResponse, 0x0d),
      (GetPurchaseHistoryRequest, 0x0e), (GetPurchaseHistoryResponse, 0x0f),
      (PostRightBinaryByAccount, 0x10),
      (UseServiceItemByAccountRequest, 0x11), (UseServiceItemByAccountResponse, 0x12),
      (AcquireServiceItemByAccount, 0x13), (GetSupportId, 0x14),
      (GetLawMessageRequest, 0x15), (GetLawMessageResponse, 0x16)]"

definition MethodNames :: "nat \<rightharpoonup> service_method" where
  "MethodNames = map_of (map (\<lambda>(key, v). (v, key)) Methods)"

definition Handlers :: "nat \<rightharpoonup> service_method" where
  "Handlers =
     map_of
       [(0x01, GetEnvironment), (0x02, HttpGetRequest), (0x03, HttpGetResponse),
        (0x04, PurchaseServiceItemRequest), (0x05, PurchaseServiceItemResponse),
        (0x06, ListServiceItemRequest), (0x07, ListServiceItemResponse),
        (0x08, GetBalanceRequest), (0x09, GetBalanceResponse),
        (0x0a, GetPrepurchaseInfoRequest), (0x0b, GetPrepurchaseInfoResponse),
        (0x0c, GetServiceItemRightRequest), (0x0d, GetServiceItemRightResponse),
        (0x0e, GetPurchaseHistoryRequest), (0x0f, GetPurchaseHistoryResponse),
        (0x10, PostRightBinaryByAccount),
        (0x11, UseServiceItemByAccountRequest), (0x12, UseServiceItemByAccountResponse),
        (0x13, AcquireServiceItemByAccount), (0x14, GetSupportId),
        (0x15, GetLawMessageRequest), (0x16, GetLawMessageResponse)]"

text \<open>
  The fields of an RMC message and of a packet that the dispatcher touches. The method
  id may be undefined (the source guards its rendering with \<open>?.\<close>).
\<close>

record rmcMessage =
  methodId :: "nat option"
  isRequest :: bool
  body :: bytes

record 'b rmcPacket =
  rmcMessage :: rmcMessage
  packet_connection :: "nat option"
  rmcData :: "'b option"

text \<open>
  The request and response classes of \<open>./requests/service_item\<close> and
  \<open>./responses/service_item\<close> are not among the sources: their constructors, which read
  the body from the stream and may raise, are taken from outside.
\<close>

record 'b catalog =
  Requests :: "service_method \<Rightarrow> stream \<Rightarrow> error + 'b"
  Responses :: "service_method \<Rightarrow> stream \<Rightarrow> error + 'b"

text \<open>
  Each handler builds the request class of its method for a request and the response
  class otherwise.
\<close>

definition handler :: "'b catalog \<Rightarrow> service_method \<Rightarrow> rmcMessage \<Rightarrow> stream \<Rightarrow> error + 'b" where
  "handler cat m msg s = (if isRequest msg then Requests cat m s else Responses cat m s)"

text \<open>
  The line written to the console for an unknown method: the method id and the name
  \<open>MethodNames\<close> has for it.
\<close>

datatype diagnostic = UnknownMethod "nat option" "service_method option"

definition ServiceItem_handlePacket ::
  "'b catalog \<Rightarrow> 'b rmcPacket \<Rightarrow> diagnostic list
     \<Rightarrow> error + ('b rmcPacket \<times> diagnostic list)" where
  "ServiceItem_handlePacket cat packet log =
     (let mid = methodId (rmcMessage packet) in
      case (case mid of None \<Rightarrow> None | Some m \<Rightarrow> Handlers m) of
        None \<Rightarrow>
          Inr (packet,
               log @ [UnknownMethod mid
                        (case mid of None \<Rightarrow> None | Some m \<Rightarrow> MethodNames m)])
      | Some h \<Rightarrow>
          (let msg = rmcMessage packet;
               s = Stream (body msg) (packet_connection packet)
           in case handler cat h msg s of
                Inl e \<Rightarrow> Inl e
              | Inr decoded \<Rightarrow> Inr (packet\<lparr>rmcData := Some decoded\<rparr>, log)))"

section \<open>Sample inputs\<close>

text \<open>
  A parser as its constructor leaves it: an empty registry, no object allocated, nothing
  emitted.
\<close>

definition NEXParser :: "collab \<Rightarrow> pstate" where
  "NEXParser env = \<lparr>heap = (\<lambda>r. blank env), nextRef = 0, connections = [], events = []\<rparr>"

definition stateOf :: "outcome \<Rightarrow> pstate" where
  "stateOf out = (case out of Returned st \<Rightarrow> st | Threw e st \<Rightarrow> st)"

definition blankConnection :: connection where
  "blankConnection =
     \<lparr>discriminator = [], clientAddress = [], serverAddress = [],
      accessKey = [], accessKeySum = [], signatureKey = [], sessionKey = [],
      rc4ClientState = RC4 [] 0, rc4ServerState = RC4 [] 0,
      prudpVersion = 0, title = [],
      isSecureServer = False, checkForSecureServer = False,
      secureServerStationURL = None\<rparr>"

text \<open>
  Collaborators for the samples: addresses in 192.168.0.0/16 are private, and
  \<open>Connection.handlePacket\<close> leaves the connection as it is.
\<close>

definition exampleEnv :: collab where
  "exampleEnv =
     \<lparr>isPrivateIP = (\<lambda>ip. take 8 ip = ''192.168.''),
      blank = blankConnection,
      conn_handlePacket = (\<lambda>c p. c)\<rparr>"

text \<open>
  The XID broadcast frame quoted in the comment of \<open>handlePacket\<close>, and its UDP payload
  (the bytes from offset 42 on).
\<close>

definition xidFrame :: bytes where
  "xidFrame =
     [0xff, 0xff, 0xff, 0xff, 0xff, 0xff, 0xfe, 0xe6, 0xbf, 0x25, 0xb3, 0xcd, 0x00, 0x06,
      0x00, 0x01, 0xaf, 0x81, 0x01, 0x00, 0x40, 0x00, 0x15, 0x11, 0x1e, 0xcd, 0x34, 0x26,
      0x51, 0xeb, 0xc0, 0xa8, 0x00, 0x0d, 0xe9, 0xfd, 0xf3, 0x28, 0x00, 0x26, 0x2e, 0x52,
      0xea, 0xd0, 0x01, 0x00, 0x0f, 0x16, 0x53, 0xc0, 0x88, 0x42, 0xe9, 0x00, 0xc2, 0x00,
      0x1a, 0x5c, 0x1a, 0x52]"

definition collisionPayload :: bytes where
  "collisionPayload =
     [0xea, 0xd0, 0x01, 0x00, 0x0f, 0x16, 0x53, 0xc0, 0x88, 0x42, 0xe9, 0x00, 0xc2, 0x00,
      0x1a, 0x5c, 0x1a, 0x52]"

text \<open>
  A version-1 packet of 35 bytes: the magic, a skipped byte, 2 bytes of packet-specific
  data, a payload of 3 bytes, and the server-bound marker.
\<close>

definition samplePacketV1 :: bytes where
  "samplePacketV1 =
     [0xEA, 0xD0, 0x01, 0x02, 0x03, 0x00, 0xAF, 0xA1, 0x00, 0x00, 0x00, 0x00, 0x00, 0x00,
      0x00, 0x00, 0x00, 0x00, 0x00, 0x00, 0x00, 0x00, 0x00, 0x00, 0x00, 0x00, 0x00, 0x00,
      0x00, 0x00, 0x11, 0x22, 0x33, 0x44, 0x55]"

text \<open>A datagram cut short: the header of a version-1 packet and nothing behind it.\<close>

definition truncatedV1 :: bytes where
  "truncatedV1 = [0xEA, 0xD0, 0x01, 0x00, 0x00, 0x00, 0xAF, 0xA1]"

text \<open>A UDP payload that ends right behind the version-1 magic.\<close>

definition magicOnly :: bytes where
  "magicOnly = [0xEA, 0xD0]"

text \<open>
  An Ethernet frame from 192.168.0.13:50000 to 8.8.8.8:60000 with that payload (UDP
  length 10).
\<close>

definition magicOnlyFrame :: bytes where
  "magicOnlyFrame =
     [0x00, 0x11, 0x22, 0x33, 0x44, 0x55, 0x66, 0x77, 0x88, 0x99, 0xAA, 0xBB, 0x08, 0x00,
      0x45, 0x00, 0x00, 0x1E, 0x00, 0x00, 0x40, 0x00, 0x40, 0x11, 0x00, 0x00,
      0xC0, 0xA8, 0x00, 0x0D, 0x08, 0x08, 0x08, 0x08,
      0xC3, 0x50, 0xEA, 0x60, 0x00, 0x0A, 0x00, 0x00]
     @ magicOnly"

text \<open>A datagram with a version-1 packet followed by the start of a version-0 packet.\<close>

definition mixedDatagram :: bytes where
  "mixedDatagram = samplePacketV1 @ [0xAF, 0xA1, 0x00, 0x00]"

text \<open>
  An Ethernet frame from 192.168.0.13:50000 to 8.8.8.8:60000 whose UDP payload is the
  sample packet twice.
\<close>

definition twoPacketFrame :: bytes where
  "twoPacketFrame =
     [0x00, 0x11, 0x22, 0x33, 0x44, 0x55, 0x66, 0x77, 0x88, 0x99, 0xAA, 0xBB, 0x08, 0x00,
      0x45, 0x00, 0x00, 0x62, 0x00, 0x00, 0x40, 0x00, 0x40, 0x11, 0x00, 0x00,
      0xC0, 0xA8, 0x00, 0x0D, 0x08, 0x08, 0x08, 0x08,
      0xC3, 0x50, 0xEA, 0x60, 0x00, 0x4E, 0x00, 0x00]
     @ samplePacketV1 @ samplePacketV1"

text \<open>
  A connection after authentication, with the station URL of a secure server at another
  address; an older secure connection at that address; and the registry of a session
  that reconnects.
\<close>

definition authConnection :: connection where
  "authConnection =
     blankConnection
       \<lparr>discriminator := ''8.8.8.8:60000'', clientAddress := ''192.168.0.13:50000'',
        serverAddress := ''8.8.8.8:60000'', accessKey := [0x61, 0x62], accessKeySum := [0xC3],
        signatureKey := [0x07, 0x08], sessionKey := [1, 2, 3, 4], prudpVersion := 1,
        title := ''Sample'', checkForSecureServer := True,
        secureServerStationURL := Some \<lparr>address = ''8.8.4.4'', port = ''60001''\<rparr>\<rparr>"

definition oldSecureConnection :: connection where
  "oldSecureConnection =
     blankConnection
       \<lparr>discriminator := ''8.8.4.4:60001'', sessionKey := [9, 9], isSecureServer := True\<rparr>"

definition reconnectState :: pstate where
  "reconnectState =
     \<lparr>heap = (\<lambda>r. blankConnection)(0 := authConnection, 1 := oldSecureConnection),
      nextRef = 2, connections = [0, 1], events = []\<rparr>"

text \<open>The same connection when the secure server shares the socket.\<close>

definition sameSocketState :: pstate where
  "sameSocketState =
     \<lparr>heap = (\<lambda>r. blankConnection)
        (0 := authConnection
                \<lparr>secureServerStationURL := Some \<lparr>address = ''8.8.8.8'', port = ''60000''\<rparr>\<rparr>),
      nextRef = 1, connections = [0], events = []\<rparr>"

text \<open>A UDP packet from the client to the server, and the one that answers it.\<close>

definition clientFrame :: udpPacket where
  "clientFrame =
     \<lparr>source = ''192.168.0.13'', destination = ''8.8.8.8'', sourcePort = 50000,
      destinationPort = 60000, payload = samplePacketV1\<rparr>"

definition serverFrame :: udpPacket where
  "serverFrame =
     \<lparr>source = ''8.8.8.8'', destination = ''192.168.0.13'', sourcePort = 60000,
      destinationPort = 50000, payload = samplePacketV1\<rparr>"

text \<open>
  A catalog whose classes keep the method, the direction and the bytes of the body, and
  two packets for the dispatcher: method 0x17, which has no handler, and a request of
  method 0x08.
\<close>

definition sampleCatalog :: "(service_method \<times> bool \<times> bytes) catalog" where
  "sampleCatalog =
     \<lparr>Requests = (\<lambda>m s. Inr (m, True, buffer s)),
      Responses = (\<lambda>m s. Inr (m, False, buffer s))\<rparr>"

definition unknownPacket :: "(service_method \<times> bool \<times> bytes) rmcPacket" where
  "unknownPacket =
     \<lparr>rmcMessage = \<lparr>methodId = Some 0x17, isRequest = True, body = [1, 2]\<rparr>,
      packet_connection = Some 0, rmcData = None\<rparr>"

definition balancePacket :: "(service_method \<times> bool \<times> bytes) rmcPacket" where
  "balancePacket =
     \<lparr>rmcMessage = \<lparr>methodId = Some 0x08, isRequest = True, body = [1, 2]\<rparr>,
      packet_connection = Some 0, rmcData = None\<rparr>"

section \<open>Facts about buffers and streams\<close>

lemma subarray_nonneg:
  "0 \<le> a \<Longrightarrow> a \<le> e \<Longrightarrow> subarray b a e = take (nat (e - a)) (drop (nat a) b)"
  by (auto simp: subarray_def adjustOffset_def Let_def nat_diff_distrib)

lemma subarray_to_end:
  "int (length b) \<le> e \<Longrightarrow> subarray b a e = drop (adjustOffset a (length b)) b"
  by (auto simp: subarray_def adjustOffset_def Let_def)

lemma subarray_window:
  "0 \<le> a \<Longrightarrow> subarray b a (a + int n) = take n (drop (nat a) b)"
  by (auto simp: subarray_def adjustOffset_def Let_def nat_add_distrib)

lemma read_at:
  "0 \<le> offset s \<Longrightarrow>
   readBytes (int n) s =
     (take n (drop (nat (offset s)) (buffer s)), s\<lparr>offset := offset s + int n\<rparr>)"
  by (simp add: readBytes_def read_def subarray_window)

section \<open>The stream reader checks no bounds\<close>

text \<open>
  Claim C10. \<open>read\<close> and \<open>readBytes\<close> are total: they return bytes and a stream for
  every stream and every length, with no error among their results. The cursor always
  moves by the full length asked for, also for \<open>skip\<close>, \<open>readRest\<close> and the integer
  readers. When fewer than \<open>len\<close> bytes remain, the bytes returned are those up to the
  end of the buffer (all of them from the cursor on when the cursor is not negative,
  none when the cursor already stands at or behind the end), and the cursor ends behind
  the end of the buffer.
\<close>

theorem stream_read_unchecked:
  "readBytes len s = read len s
   \<and> snd (read len s) = s\<lparr>offset := offset s + len\<rparr>
   \<and> skip v s = s\<lparr>offset := offset s + v\<rparr>
   \<and> snd (readRest s) = s\<lparr>offset := offset s + remaining s\<rparr>
   \<and> snd (readUInt8 s) = s\<lparr>offset := offset s + 1\<rparr>
   \<and> snd (readUInt16LE s) = s\<lparr>offset := offset s + 2\<rparr>
   \<and> snd (readUInt16BE s) = s\<lparr>offset := offset s + 2\<rparr>
   \<and> snd (readUInt32BE s) = s\<lparr>offset := offset s + 4\<rparr>
   \<and> (remaining s < len \<longrightarrow>
        fst (read len s) = drop (adjustOffset (offset s) (length (buffer s))) (buffer s)
        \<and> int (length (buffer s)) < offset (snd (read len s)))
   \<and> (remaining s < len \<and> 0 \<le> offset s \<longrightarrow>
        fst (read len s) = drop (nat (offset s)) (buffer s)
        \<and> int (length (fst (read len s))) = max 0 (remaining s))
   \<and> (remaining s \<le> 0 \<and> 0 \<le> offset s \<longrightarrow> fst (read len s) = [])"
proof -
  have a: "remaining s < len \<Longrightarrow>
        fst (read len s) = drop (adjustOffset (offset s) (length (buffer s))) (buffer s)"
    by (simp add: read_def remaining_def subarray_to_end)
  have b: "remaining s < len \<Longrightarrow> 0 \<le> offset s \<Longrightarrow>
        int (length (fst (read len s))) = max 0 (remaining s)"
    using a by (auto simp: remaining_def adjustOffset_def)
  have c: "remaining s < len \<Longrightarrow> int (length (buffer s)) < offset (snd (read len s))"
    by (simp add: read_def remaining_def)
  have d: "remaining s < len \<Longrightarrow> 0 \<le> offset s \<Longrightarrow>
        fst (read len s) = drop (nat (offset s)) (buffer s)"
    using a by (auto simp: adjustOffset_def)
  have e: "remaining s \<le> 0 \<Longrightarrow> 0 \<le> offset s \<Longrightarrow> fst (read len s) = []"
    by (auto simp: read_def remaining_def subarray_def adjustOffset_def Let_def)
  have f: "readBytes len s = read len s
   \<and> snd (read len s) = s\<lparr>offset := offset s + len\<rparr>
   \<and> skip v s = s\<lparr>offset := offset s + v\<rparr>
   \<and> snd (readRest s) = s\<lparr>offset := offset s + remaining s\<rparr>
   \<and> snd (readUInt8 s) = s\<lparr>offset := offset s + 1\<rparr>
   \<and> snd (readUInt16LE s) = s\<lparr>offset := offset s + 2\<rparr>
   \<and> snd (readUInt16BE s) = s\<lparr>offset := offset s + 2\<rparr>
   \<and> snd (readUInt32BE s) = s\<lparr>offset := offset s + 4\<rparr>"
    by (simp add: readBytes_def read_def skip_def readRest_def readUInt8_def readUInt16LE_def
        readUInt16BE_def readUInt32BE_def)
  show ?thesis
    using a b c d e f by blast
qed

text \<open>
  A three-byte buffer with the cursor at 2: reading 5 bytes returns the one byte left and
  puts the cursor at 7; reading 2 more returns nothing and puts it at 9.
\<close>

theorem stream_read_unchecked_witness:
  "remaining \<lparr>connection = None, buffer = [1, 2, 3], offset = 2\<rparr> < 5
   \<and> 0 \<le> offset \<lparr>connection = None, buffer = [1, 2, 3], offset = 2\<rparr>
   \<and> read 5 \<lparr>connection = None, buffer = [1, 2, 3], offset = 2\<rparr>
       = ([3], \<lparr>connection = None, buffer = [1, 2, 3], offset = 7\<rparr>)
   \<and> remaining \<lparr>connection = None, buffer = [1, 2, 3], offset = 7\<rparr> \<le> 0
   \<and> read 2 \<lparr>connection = None, buffer = [1, 2, 3], offset = 7\<rparr>
       = ([], \<lparr>connection = None, buffer = [1, 2, 3], offset = 9\<rparr>)"
  using stream_read_unchecked [of 5 "\<lparr>connection = None, buffer = [1, 2, 3], offset = 2\<rparr>" 0]
    stream_read_unchecked [of 2 "\<lparr>connection = None, buffer = [1, 2, 3], offset = 7\<rparr>" 0]
  by (simp add: remaining_def prod_eq_iff adjustOffset_def)

lemma subarray_17_20: "subarray frame 17 20 = take 3 (drop 17 frame)"
  using subarray_window [of 17 frame 3] by simp

lemma at_two:
  assumes "take 2 (drop n b) = [x, y]"
  shows "n + 2 \<le> length b"
proof -
  have "length (take 2 (drop n b)) = 2" using assms by simp
  then show ?thesis by (simp add: min_def split: if_splits)
qed

lemma u8_at:
  assumes "0 \<le> offset s" and "nat (offset s) < length (buffer s)"
  shows "readUInt8 s = (Inr (unat (buffer s ! nat (offset s))), s\<lparr>offset := offset s + 1\<rparr>)"
proof -
  have "take 1 (drop (nat (offset s)) (buffer s)) = [buffer s ! nat (offset s)]"
    using assms(2) by (simp add: take_Suc_conv_app_nth [of 0] hd_drop_conv_nth take_Suc)
  then show ?thesis
    using read_at [OF assms(1), of 1] by (simp add: readUInt8_def)
qed

lemma u16le_at:
  assumes "0 \<le> offset s" and "nat (offset s) + 1 < length (buffer s)"
  shows "readUInt16LE s =
     (Inr (unat (buffer s ! nat (offset s)) + 256 * unat (buffer s ! (nat (offset s) + 1))),
      s\<lparr>offset := offset s + 2\<rparr>)"
proof -
  have "drop (nat (offset s)) (buffer s) =
      buffer s ! nat (offset s) # buffer s ! (nat (offset s) + 1)
        # drop (nat (offset s) + 2) (buffer s)"
    using assms(2) by (simp add: Cons_nth_drop_Suc)
  then have "take 2 (drop (nat (offset s)) (buffer s)) =
      [buffer s ! nat (offset s), buffer s ! (nat (offset s) + 1)]"
    by (simp add: numeral_2_eq_2)
  then show ?thesis
    using read_at [OF assms(1), of 2] by (simp add: readUInt16LE_def)
qed

lemma readRest_end: "snd (readRest s) = s\<lparr>offset := int (length (buffer s))\<rparr>"
  by (simp add: readRest_def readBytes_def read_def remaining_def)

text \<open>
  What one pass of the framer does at a cursor where the version-1 magic stands and the
  size fields lie inside the payload.
\<close>

lemma carve_v1_header:
  assumes pos: "0 \<le> offset s"
    and magic: "take 2 (drop (nat (offset s)) (buffer s)) = MAGIC_V1"
    and fields: "offset s + 6 \<le> int (length (buffer s))"
  shows "carve udpPayload conn s =
     (let psdl = unat (buffer s ! (nat (offset s) + 3));
          size = unat (buffer s ! (nat (offset s) + 4))
                 + 256 * unat (buffer s ! (nat (offset s) + 5));
          sd = take 2 (drop (nat (offset s) + 6) (buffer s))
      in if sd = MAGIC_SERVERBOUND \<or> sd = MAGIC_CLIENTBOUND
         then Carved (PacketV1 conn (take (30 + psdl + size) (drop (nat (offset s)) (buffer s))))
                (s\<lparr>offset := offset s + int (30 + psdl + size)\<rparr>)
         else Discarded (s\<lparr>offset := int (length (buffer s))\<rparr>))"
proof -
  define b where "b = buffer s"
  define n where "n = nat (offset s)"
  define psdl where "psdl = unat (b ! (n + 3))"
  define size where "size = unat (b ! (n + 4)) + 256 * unat (b ! (n + 5))"
  have off: "offset s = int n" using pos by (simp add: n_def)
  have len: "n + 6 \<le> length b" using fields off by (simp add: b_def)
  have r1: "readBytes 0x2 s = (MAGIC_V1, s\<lparr>offset := int n + 2\<rparr>)"
    using read_at [OF pos, of 2] magic by (simp add: off)
  have r3: "readUInt8 (skip 0x1 (s\<lparr>offset := int n + 2\<rparr>))
              = (Inr psdl, s\<lparr>offset := int n + 4\<rparr>)"
    using u8_at [of "s\<lparr>offset := int n + 3\<rparr>"] len
    by (simp add: skip_def psdl_def b_def nat_add_distrib ac_simps)
  have r4: "readUInt16LE (s\<lparr>offset := int n + 4\<rparr>) = (Inr size, s\<lparr>offset := int n + 6\<rparr>)"
    using u16le_at [of "s\<lparr>offset := int n + 4\<rparr>"] len
    by (simp add: size_def b_def nat_add_distrib ac_simps)
  have r5: "readBytes 0x2 (s\<lparr>offset := int n + 6\<rparr>)
              = (take 2 (drop (n + 6) b), s\<lparr>offset := int n + 8\<rparr>)"
    using read_at [of "s\<lparr>offset := int n + 6\<rparr>" 2]
    by (simp add: b_def nat_add_distrib ac_simps)
  have eq: "30 + int psdl + int size = int (30 + psdl + size)" by simp
  have r7: "readBytes (30 + int psdl + int size) (skip (- 8) (s\<lparr>offset := int n + 8\<rparr>))
              = (take (30 + psdl + size) (drop n b),
                 s\<lparr>offset := int n + (30 + int psdl + int size)\<rparr>)"
    unfolding eq using read_at [of "s\<lparr>offset := int n\<rparr>" "30 + psdl + size"]
    by (simp add: skip_def b_def ac_simps)
  have r8: "snd (readRest (s\<lparr>offset := int n + 8\<rparr>)) = s\<lparr>offset := int (length b)\<rparr>"
    by (simp add: readRest_end b_def)
  show ?thesis
    unfolding carve_def r1
    by (simp add: r3 r4 r5 r7 r8 Let_def off
        psdl_def [symmetric] size_def [symmetric] b_def [symmetric] n_def [symmetric])
qed

lemma carve_v0_marker:
  assumes pos: "0 \<le> offset s"
    and magic: "take 2 (drop (nat (offset s)) (buffer s)) = MAGIC_SERVERBOUND
                \<or> take 2 (drop (nat (offset s)) (buffer s)) = MAGIC_CLIENTBOUND"
  shows "carve udpPayload conn s
           = Carved (PacketV0 conn udpPayload) (s\<lparr>offset := offset s + 2\<rparr>)"
  using magic read_at [OF pos, of 2]
  by (auto simp: carve_def MAGIC_SERVERBOUND_def MAGIC_CLIENTBOUND_def MAGIC_V1_def)

text \<open>
  At a cursor where the version-1 magic stands and the payload ends inside the size
  fields, the read of a size field raises.
\<close>

lemma short_u16le: "length xs < 2 \<Longrightarrow> buf_readUInt16LE xs = Inl RangeError"
  by (cases xs; cases "tl xs") auto

lemma carve_cut_short:
  assumes pos: "0 \<le> offset s"
    and magic: "take 2 (drop (nat (offset s)) (buffer s)) = MAGIC_V1"
    and short: "int (length (buffer s)) < offset s + 6"
  shows "carve udpPayload conn s = Raised RangeError"
proof -
  define b where "b = buffer s"
  define n where "n = nat (offset s)"
  have off: "offset s = int n" using pos by (simp add: n_def)
  have len: "length b < n + 6" using short off by (simp add: b_def)
  have r1: "readBytes 0x2 s = (MAGIC_V1, s\<lparr>offset := int n + 2\<rparr>)"
    using read_at [OF pos, of 2] magic by (simp add: off)
  show ?thesis
  proof (cases "n + 3 < length b")
    case False
    have "fst (readBytes 1 (s\<lparr>offset := int n + 3\<rparr>)) = []"
      using read_at [of "s\<lparr>offset := int n + 3\<rparr>" 1] False
      by (simp add: b_def nat_add_distrib ac_simps)
    then have "fst (readUInt8 (skip 0x1 (s\<lparr>offset := int n + 2\<rparr>))) = Inl RangeError"
      by (simp add: readUInt8_def skip_def ac_simps)
    then show ?thesis
      unfolding carve_def r1 by (auto simp: Let_def split: prod.splits)
  next
    case True
    have r3: "readUInt8 (skip 0x1 (s\<lparr>offset := int n + 2\<rparr>))
              = (Inr (unat (b ! (n + 3))), s\<lparr>offset := int n + 4\<rparr>)"
      using u8_at [of "s\<lparr>offset := int n + 3\<rparr>"] True
      by (simp add: skip_def b_def nat_add_distrib ac_simps)
    have "length (fst (readBytes 2 (s\<lparr>offset := int n + 4\<rparr>))) < 2"
      using read_at [of "s\<lparr>offset := int n + 4\<rparr>" 2] len
      by (simp add: b_def nat_add_distrib ac_simps)
    then have "fst (readUInt16LE (s\<lparr>offset := int n + 4\<rparr>)) = Inl RangeError"
      by (simp add: readUInt16LE_def short_u16le)
    then show ?thesis
      unfolding carve_def r1 by (auto simp: r3 Let_def split: prod.splits)
  qed
qed

section \<open>Facts about the samples\<close>

lemma len_sample: "length samplePacketV1 = 35"
  by (simp add: samplePacketV1_def)

lemma carve_sample_0:
  "carve udp conn \<lparr>connection = None, buffer = samplePacketV1 @ rest, offset = 0\<rparr>
     = Carved (PacketV1 conn samplePacketV1)
         \<lparr>connection = None, buffer = samplePacketV1 @ rest, offset = 35\<rparr>"
  using carve_v1_header
    [of "\<lparr>connection = None, buffer = samplePacketV1 @ rest, offset = 0\<rparr>" udp conn]
  by (simp add: samplePacketV1_def MAGIC_V1_def MAGIC_SERVERBOUND_def Let_def)

lemma carve_sample_35:
  "carve udp conn
     \<lparr>connection = None, buffer = samplePacketV1 @ samplePacketV1 @ rest, offset = 35\<rparr>
     = Carved (PacketV1 conn samplePacketV1)
         \<lparr>connection = None, buffer = samplePacketV1 @ samplePacketV1 @ rest, offset = 70\<rparr>"
  using carve_v1_header
    [of "\<lparr>connection = None, buffer = samplePacketV1 @ samplePacketV1 @ rest, offset = 35\<rparr>"
        udp conn]
  by (simp add: samplePacketV1_def MAGIC_V1_def MAGIC_SERVERBOUND_def Let_def)

lemma parse_two:
  "parseUDPPacket twoPacketFrame =
     Inr (Some \<lparr>source = ''192.168.0.13'', destination = ''8.8.8.8'', sourcePort = 50000,
                destinationPort = 60000, payload = samplePacketV1 @ samplePacketV1\<rparr>)"
  by (simp add: parseUDPPacket_def twoPacketFrame_def samplePacketV1_def subarray_def
      adjustOffset_def XID_MAGIC_def Stream_def skip_def readUInt8_def readBytes_def read_def
      readUInt32BE_def readUInt16BE_def int2ip_def string_of_nat.simps digit_def Let_def)

section \<open>The Frame Extractor rejects the broadcast-discovery frame\<close>

text \<open>
  Claim C8. A frame whose bytes 17 to 19 are 0x81 0x01 0x00 is not applicable:
  \<open>parseUDPPacket\<close> returns nothing for it, and \<open>handlePacket\<close> returns with the parser
  state as it was, so no packet is decoded and nothing is emitted, whatever the rest of
  the frame holds.
\<close>

theorem xid_frame_rejected:
  assumes "take 3 (drop 17 frame) = [0x81, 0x01, 0x00]"
  shows "parseUDPPacket frame = Inr None \<and> handlePacket env frame st = Returned st"
proof -
  have "parseUDPPacket frame = Inr None"
    using assms by (simp add: parseUDPPacket_def subarray_17_20 XID_MAGIC_def)
  then show ?thesis
    by (simp add: handlePacket_def)
qed

text \<open>
  The frame of the source's comment: its payload begins with the version-1 magic, and it
  is rejected.
\<close>

theorem xid_frame_rejected_witness:
  "take 3 (drop 17 xidFrame) = [0x81, 0x01, 0x00]
   \<and> take 2 (drop 42 xidFrame) = MAGIC_V1
   \<and> parseUDPPacket xidFrame = Inr None
   \<and> (\<forall>env st. handlePacket env xidFrame st = Returned st)"
proof -
  have h: "take 3 (drop 17 xidFrame) = [0x81, 0x01, 0x00]"
    by (simp add: xidFrame_def)
  have m: "take 2 (drop 42 xidFrame) = MAGIC_V1"
    by (simp add: xidFrame_def MAGIC_V1_def)
  show ?thesis
    using h m xid_frame_rejected [OF h] by simp
qed

section \<open>A magic collision ends the datagram\<close>

text \<open>
  Claim C7, as the code has it. At a cursor where the two bytes are the version-1 magic,
  the size fields lie inside the payload (at least 6 bytes remain from the magic), and
  the two bytes behind the size fields are neither virtual-port marker, the framer carves
  no packet: it moves the cursor to the end of the payload and the loop returns normally
  with the parser state it had on reaching this cursor, so no error is raised and nothing
  more is registered or emitted for the datagram.
\<close>

theorem magic_collision_discards:
  assumes pos: "0 \<le> offset s"
    and magic: "take 2 (drop (nat (offset s)) (buffer s)) = MAGIC_V1"
    and fields: "offset s + 6 \<le> int (length (buffer s))"
    and nsb: "take 2 (drop (nat (offset s) + 6) (buffer s)) \<noteq> MAGIC_SERVERBOUND"
    and ncb: "take 2 (drop (nat (offset s) + 6) (buffer s)) \<noteq> MAGIC_CLIENTBOUND"
  shows "carve udpPayload conn s = Discarded (s\<lparr>offset := int (length (buffer s))\<rparr>)
         \<and> \<not> hasDataLeft (s\<lparr>offset := int (length (buffer s))\<rparr>)
         \<and> frameLoop env udpPayload conn newConnection s st = Returned st"
proof -
  have c: "carve udpPayload conn s = Discarded (s\<lparr>offset := int (length (buffer s))\<rparr>)"
    using carve_v1_header [OF pos magic fields] nsb ncb by (simp add: Let_def)
  have "frameLoop env udpPayload conn newConnection s st = Returned st"
    by (subst frameLoop.simps) (simp add: c)
  then show ?thesis
    using c by (simp add: hasDataLeft_def)
qed

theorem magic_collision_discards_witness:
  "0 \<le> offset (Stream collisionPayload None)
   \<and> take 2 (drop (nat (offset (Stream collisionPayload None))) collisionPayload) = MAGIC_V1
   \<and> offset (Stream collisionPayload None) + 6 \<le> int (length collisionPayload)
   \<and> take 2 (drop 6 collisionPayload) = [0x53, 0xc0]
   \<and> carve collisionPayload 0 (Stream collisionPayload None)
       = Discarded \<lparr>connection = None, buffer = collisionPayload, offset = 18\<rparr>
   \<and> (\<forall>env newConnection st.
         frameLoop env collisionPayload 0 newConnection (Stream collisionPayload None) st
           = Returned st)"
  using magic_collision_discards [of "Stream collisionPayload None" collisionPayload 0]
  by (simp add: Stream_def collisionPayload_def MAGIC_V1_def MAGIC_SERVERBOUND_def
      MAGIC_CLIENTBOUND_def)

text \<open>
  The claim as stated fails when the payload ends inside the size fields. The payload
  \<open>magicOnly\<close> is the version-1 magic alone: no marker follows the size fields, yet
  \<open>readUInt8\<close> raises a \<open>RangeError\<close> before the marker check, and the error leaves
  \<open>handlePacket\<close>; nothing is registered or emitted.
\<close>

theorem magic_collision_counterexample:
  "take 2 (drop 0 magicOnly) = MAGIC_V1
   \<and> take 2 (drop 6 magicOnly) \<noteq> MAGIC_SERVERBOUND
   \<and> take 2 (drop 6 magicOnly) \<noteq> MAGIC_CLIENTBOUND
   \<and> carve magicOnly 0 (Stream magicOnly None) = Raised RangeError
   \<and> frameLoop exampleEnv magicOnly 0 True (Stream magicOnly None) (NEXParser exampleEnv)
       = Threw RangeError (NEXParser exampleEnv)
   \<and> handlePacket exampleEnv magicOnlyFrame (NEXParser exampleEnv)
       = Threw RangeError
           (stateOf (handlePacket exampleEnv magicOnlyFrame (NEXParser exampleEnv)))
   \<and> connections (stateOf (handlePacket exampleEnv magicOnlyFrame (NEXParser exampleEnv))) = []
   \<and> events (stateOf (handlePacket exampleEnv magicOnlyFrame (NEXParser exampleEnv))) = []"
proof -
  have c: "carve magicOnly conn (Stream magicOnly None) = Raised RangeError" for conn
    using carve_cut_short [of "Stream magicOnly None" magicOnly conn]
    by (simp add: Stream_def magicOnly_def MAGIC_V1_def)
  have l: "frameLoop env magicOnly conn nc (Stream magicOnly None) st = Threw RangeError st"
    for env conn nc st
    by (subst frameLoop.simps) (simp add: c, simp add: hasDataLeft_def Stream_def magicOnly_def)
  have p: "parseUDPPacket magicOnlyFrame =
     Inr (Some \<lparr>source = ''192.168.0.13'', destination = ''8.8.8.8'', sourcePort = 50000,
                destinationPort = 60000, payload = magicOnly\<rparr>)"
    by (simp add: parseUDPPacket_def magicOnlyFrame_def magicOnly_def subarray_def
      adjustOffset_def XID_MAGIC_def Stream_def skip_def readUInt8_def readBytes_def read_def
      readUInt32BE_def readUInt16BE_def int2ip_def string_of_nat.simps digit_def Let_def)
  have h: "handlePacket exampleEnv magicOnlyFrame (NEXParser exampleEnv)
       = Threw RangeError
           ((NEXParser exampleEnv)
              \<lparr>heap := (heap (NEXParser exampleEnv))
                 (0 := (Connection exampleEnv ''8.8.8.8:60000'')
                    \<lparr>clientAddress := ''192.168.0.13:50000'',
                     serverAddress := ''8.8.8.8:60000''\<rparr>),
               nextRef := 1\<rparr>)"
    by (simp add: handlePacket_def p direction_def exampleEnv_def [THEN arg_cong, of isPrivateIP]
        string_of_nat.simps digit_def Let_def lookupConnection_def findLast_def l NEXParser_def)
  show ?thesis
    using c [of 0] l [of exampleEnv 0 True "NEXParser exampleEnv"]
    by (simp add: h stateOf_def) (simp add: magicOnly_def MAGIC_V1_def MAGIC_SERVERBOUND_def
        MAGIC_CLIENTBOUND_def NEXParser_def)
qed

section \<open>The span of a version-1 packet\<close>

text \<open>
  Claim C4, as the code has it. At a cursor where the version-1 magic stands and a
  virtual-port marker follows the size fields, the framer rewinds to the magic and reads
  \<open>2 + 12 + 16 + packetSpecificDataLength + payloadSize\<close> bytes from there: the span
  handed to the version-1 decoder starts at the magic, the cursor moves by the declared
  length, and the span has the declared length when that many bytes remain in the
  payload from the magic on; otherwise the span is the shorter rest of the payload.
\<close>

theorem v1_span_clamped:
  assumes pos: "0 \<le> offset s"
    and magic: "take 2 (drop (nat (offset s)) (buffer s)) = MAGIC_V1"
    and marker: "take 2 (drop (nat (offset s) + 6) (buffer s)) = MAGIC_SERVERBOUND
                 \<or> take 2 (drop (nat (offset s) + 6) (buffer s)) = MAGIC_CLIENTBOUND"
  shows "let packetSpecificDataLength = unat (buffer s ! (nat (offset s) + 3));
             payloadSize = unat (buffer s ! (nat (offset s) + 4))
                           + 256 * unat (buffer s ! (nat (offset s) + 5));
             declared = 2 + 12 + 16 + packetSpecificDataLength + payloadSize;
             span = take declared (drop (nat (offset s)) (buffer s))
         in carve udpPayload conn s
              = Carved (PacketV1 conn span) (s\<lparr>offset := offset s + int declared\<rparr>)
            \<and> take 2 span = MAGIC_V1
            \<and> length span = min declared (length (buffer s) - nat (offset s))
            \<and> (nat (offset s) + declared \<le> length (buffer s) \<longrightarrow> length span = declared)"
proof -
  have "nat (offset s) + 6 + 2 \<le> length (buffer s)"
    using marker at_two [of "nat (offset s) + 6" "buffer s"]
    by (auto simp: MAGIC_SERVERBOUND_def MAGIC_CLIENTBOUND_def)
  then have fields: "offset s + 6 \<le> int (length (buffer s))"
    using pos by linarith
  show ?thesis
    using carve_v1_header [OF pos magic fields, of udpPayload conn] marker magic
    by (auto simp: Let_def MAGIC_V1_def min.commute)
qed

text \<open>
  The second packet of a datagram that holds the sample packet twice: the span is the
  35 bytes the size fields declare.
\<close>

theorem v1_span_clamped_witness:
  "0 \<le> offset \<lparr>connection = None, buffer = samplePacketV1 @ samplePacketV1, offset = 35\<rparr>
   \<and> take 2 (drop 35 (samplePacketV1 @ samplePacketV1)) = MAGIC_V1
   \<and> take 2 (drop (35 + 6) (samplePacketV1 @ samplePacketV1)) = MAGIC_SERVERBOUND
   \<and> carve (samplePacketV1 @ samplePacketV1) 0
         \<lparr>connection = None, buffer = samplePacketV1 @ samplePacketV1, offset = 35\<rparr>
       = Carved (PacketV1 0 samplePacketV1)
           \<lparr>connection = None, buffer = samplePacketV1 @ samplePacketV1, offset = 70\<rparr>
   \<and> length samplePacketV1 = 2 + 12 + 16 + 2 + 3"
  using v1_span_clamped
    [of "\<lparr>connection = None, buffer = samplePacketV1 @ samplePacketV1, offset = 35\<rparr>"
        "samplePacketV1 @ samplePacketV1" 0]
  by (simp add: samplePacketV1_def MAGIC_V1_def MAGIC_SERVERBOUND_def Let_def)

text \<open>
  The claim as stated fails on a datagram cut short. The 8 bytes of \<open>truncatedV1\<close> pass
  the magic and the marker check with both size fields 0; the framer hands the decoder
  those 8 bytes, not 30, and puts the cursor at 30.
\<close>

theorem v1_span_counterexample:
  "carve truncatedV1 0 (Stream truncatedV1 None)
     = Carved (PacketV1 0 truncatedV1) \<lparr>connection = None, buffer = truncatedV1, offset = 30\<rparr>
   \<and> unat (truncatedV1 ! 3) = 0
   \<and> unat (truncatedV1 ! 4) + 256 * unat (truncatedV1 ! 5) = 0
   \<and> length truncatedV1 = 8
   \<and> length truncatedV1 \<noteq> 2 + 12 + 16 + 0 + 0"
  using carve_v1_header [of "Stream truncatedV1 None" truncatedV1 0]
  by (simp add: Stream_def truncatedV1_def MAGIC_V1_def MAGIC_SERVERBOUND_def
      MAGIC_CLIENTBOUND_def Let_def)

section \<open>The buffer of a version-0 packet\<close>

text \<open>
  Claim C3, as the code has it. At a cursor where one of the two virtual-port markers
  stands, the framer builds a version-0 packet from the whole UDP payload of the
  datagram, from its first byte, wherever the cursor is; no length field bounds it, and
  the cursor moves behind the two marker bytes only. When the marker stands at the start
  of the datagram, the whole payload is also what remains of it.
\<close>

theorem v0_whole_payload:
  assumes pos: "0 \<le> offset s"
    and magic: "take 2 (drop (nat (offset s)) (buffer s)) = MAGIC_SERVERBOUND
                \<or> take 2 (drop (nat (offset s)) (buffer s)) = MAGIC_CLIENTBOUND"
  shows "carve udpPayload conn s
           = Carved (PacketV0 conn udpPayload) (s\<lparr>offset := offset s + 2\<rparr>)
         \<and> (buffer s = udpPayload \<and> offset s = 0
              \<longrightarrow> udpPayload = drop (nat (offset s)) (buffer s))"
  using carve_v0_marker [OF pos magic] by simp

theorem v0_whole_payload_witness:
  "0 \<le> offset \<lparr>connection = None, buffer = mixedDatagram, offset = 35\<rparr>
   \<and> take 2 (drop 35 mixedDatagram) = MAGIC_SERVERBOUND
   \<and> carve mixedDatagram 0 \<lparr>connection = None, buffer = mixedDatagram, offset = 35\<rparr>
       = Carved (PacketV0 0 mixedDatagram)
           \<lparr>connection = None, buffer = mixedDatagram, offset = 37\<rparr>"
  using v0_whole_payload
    [of "\<lparr>connection = None, buffer = mixedDatagram, offset = 35\<rparr>" mixedDatagram 0]
  by (simp add: mixedDatagram_def samplePacketV1_def MAGIC_SERVERBOUND_def)

text \<open>
  The claim as stated fails when the marker is not at the start of the datagram. In
  \<open>mixedDatagram\<close> a version-1 packet of 35 bytes comes first; at offset 35 stands the
  server-bound marker, 4 bytes remain, and the version-0 decoder is handed all 39 bytes.
\<close>

theorem v0_remaining_counterexample:
  "events (stateOf (frameLoop exampleEnv mixedDatagram 0 False (Stream mixedDatagram None)
                      (NEXParser exampleEnv)))
     = [PacketEvent (PacketV1 0 samplePacketV1), PacketEvent (PacketV0 0 mixedDatagram)]
   \<and> drop 35 mixedDatagram = [0xAF, 0xA1, 0x00, 0x00]
   \<and> mixedDatagram \<noteq> drop 35 mixedDatagram"
proof -
  have u: "secureServerStationURL blankConnection = None"
    by (simp add: blankConnection_def)
  have step: "\<And>p st. heap st 0 = blankConnection \<Longrightarrow> afterCarve exampleEnv False 0 p st
       = st\<lparr>events := events st @ [PacketEvent p]\<rparr>"
    by (simp add: afterCarve_def register_def deliver_def secureServerCheck_def exampleEnv_def
        u Let_def)
  have c35: "carve mixedDatagram 0 \<lparr>connection = None, buffer = mixedDatagram, offset = 35\<rparr>
       = Carved (PacketV0 0 mixedDatagram)
           \<lparr>connection = None, buffer = mixedDatagram, offset = 37\<rparr>"
    using carve_v0_marker
      [of "\<lparr>connection = None, buffer = mixedDatagram, offset = 35\<rparr>" mixedDatagram 0]
    by (simp add: mixedDatagram_def samplePacketV1_def MAGIC_SERVERBOUND_def)
  have c37: "carve mixedDatagram 0 \<lparr>connection = None, buffer = mixedDatagram, offset = 37\<rparr>
       = Discarded \<lparr>connection = None, buffer = mixedDatagram, offset = 39\<rparr>"
    using read_at [of "\<lparr>connection = None, buffer = mixedDatagram, offset = 37\<rparr>" 2]
    by (simp add: carve_def readRest_end mixedDatagram_def samplePacketV1_def
        MAGIC_SERVERBOUND_def MAGIC_CLIENTBOUND_def MAGIC_V1_def)
  have len: "length mixedDatagram = 39"
    by (simp add: mixedDatagram_def samplePacketV1_def)
  have loop: "frameLoop exampleEnv mixedDatagram 0 False (Stream mixedDatagram None)
                      (NEXParser exampleEnv)
     = Returned ((NEXParser exampleEnv)\<lparr>events :=
         [PacketEvent (PacketV1 0 samplePacketV1), PacketEvent (PacketV0 0 mixedDatagram)]\<rparr>)"
    apply (subst frameLoop.simps)
    apply (simp add: Stream_def hasDataLeft_def len
        carve_sample_0 [of _ _ "[0xAF, 0xA1, 0x00, 0x00]", folded mixedDatagram_def] step
        NEXParser_def exampleEnv_def [THEN arg_cong, of blank])
    apply (subst frameLoop.simps)
    apply (simp add: hasDataLeft_def len c35 step)
    apply (subst frameLoop.simps)
    apply (simp add: hasDataLeft_def len c37)
    done
  show ?thesis
    by (simp add: loop stateOf_def) (simp add: mixedDatagram_def samplePacketV1_def)
qed

section \<open>Registration of a new connection\<close>

text \<open>
  Registration waits for a valid packet: when the first pass of the loop carves no
  packet, the loop ends with the registry and the events it started with.
\<close>

lemma frameLoop_first_fails:
  assumes "\<And>p s'. carve udpPayload conn s \<noteq> Carved p s'"
  shows "stateOf (frameLoop env udpPayload conn newConnection s st) = st"
  using assms
  by (subst frameLoop.simps) (auto simp: stateOf_def split: carved.splits)

text \<open>
  Claim C1 asks that a connection created for an unseen discriminator is registered and
  announced exactly once. The loop tests \<open>newConnection\<close> on every pass and never clears
  it, so a first datagram that holds two valid packets registers and announces its
  connection twice: for \<open>twoPacketFrame\<close> on a fresh parser the registry ends as two
  references to the same connection, and the notification is emitted before each of the
  two packets.
\<close>

theorem new_connection_registered_twice:
  "connections (stateOf (handlePacket exampleEnv twoPacketFrame (NEXParser exampleEnv))) = [0, 0]
   \<and> events (stateOf (handlePacket exampleEnv twoPacketFrame (NEXParser exampleEnv)))
       = [ConnectionEvent 0, PacketEvent (PacketV1 0 samplePacketV1),
          ConnectionEvent 0, PacketEvent (PacketV1 0 samplePacketV1)]"
proof -
  define c0 where "c0 = blankConnection\<lparr>discriminator := ''8.8.8.8:60000'',
      clientAddress := ''192.168.0.13:50000'', serverAddress := ''8.8.8.8:60000''\<rparr>"
  have u: "secureServerStationURL c0 = None"
    by (simp add: c0_def blankConnection_def)
  have step: "\<And>p st. heap st 0 = c0 \<Longrightarrow> afterCarve exampleEnv True 0 p st
       = st\<lparr>connections := connections st @ [0],
             events := events st @ [ConnectionEvent 0, PacketEvent p]\<rparr>"
    by (simp add: afterCarve_def register_def deliver_def secureServerCheck_def exampleEnv_def
        u Let_def)
  have loop: "frameLoop exampleEnv (samplePacketV1 @ samplePacketV1) 0 True
          (Stream (samplePacketV1 @ samplePacketV1) None)
          \<lparr>heap = (\<lambda>r. blankConnection)(0 := c0),
            nextRef = Suc 0, connections = [], events = []\<rparr>
     = Returned \<lparr>heap = (\<lambda>r. blankConnection)(0 := c0),
            nextRef = Suc 0, connections = [0, 0],
            events = [ConnectionEvent 0, PacketEvent (PacketV1 0 samplePacketV1),
                      ConnectionEvent 0, PacketEvent (PacketV1 0 samplePacketV1)]\<rparr>"
    apply (subst frameLoop.simps)
    apply (simp add: Stream_def hasDataLeft_def len_sample carve_sample_0 step)
    apply (subst frameLoop.simps)
    apply (simp add: hasDataLeft_def len_sample carve_sample_35 [of _ _ "[]", simplified] step)
    apply (subst frameLoop.simps)
    apply (simp add: hasDataLeft_def len_sample)
    done
  have d: "direction exampleEnv
       \<lparr>source = ''192.168.0.13'', destination = ''8.8.8.8'', sourcePort = 50000,
        destinationPort = 60000, payload = samplePacketV1 @ samplePacketV1\<rparr>
     = (''8.8.8.8:60000'', ''192.168.0.13:50000'', ''8.8.8.8:60000'')"
    by (simp add: direction_def exampleEnv_def string_of_nat.simps digit_def Let_def)
  show ?thesis
    by (simp add: handlePacket_def parse_two d lookupConnection_def findLast_def NEXParser_def
        Connection_def exampleEnv_def [THEN arg_cong, of blank] loop [unfolded c0_def]
        stateOf_def)
qed

section \<open>Facts about the secure-server check and the registry\<close>

lemma secure_other:
  assumes url: "secureServerStationURL (heap st conn) = Some url"
    and chk: "checkForSecureServer (heap st conn)"
    and diff: "discriminator (heap st conn) \<noteq> address url @ '':'' @ port url"
  shows "secureServerCheck env conn st =
     (let c = heap st conn;
          d = address url @ '':'' @ port url;
          sc = (setRC4Key (sessionKey c) (Connection env d))
                 \<lparr>accessKey := accessKey c, accessKeySum := accessKeySum c,
                  signatureKey := signatureKey c, sessionKey := sessionKey c,
                  prudpVersion := prudpVersion c, title := title c, isSecureServer := True,
                  clientAddress := clientAddress c, serverAddress := d\<rparr>;
          h1 = (heap st)(nextRef st := sc)
      in st\<lparr>heap := h1(conn := (h1 conn)\<lparr>checkForSecureServer := False\<rparr>),
            nextRef := nextRef st + 1,
            connections := connections st @ [nextRef st]\<rparr>)"
  using assms by (simp add: secureServerCheck_def Let_def)

lemma secure_same:
  assumes url: "secureServerStationURL (heap st conn) = Some url"
    and chk: "checkForSecureServer (heap st conn)"
    and same: "discriminator (heap st conn) = address url @ '':'' @ port url"
  shows "secureServerCheck env conn st =
     st\<lparr>heap := (heap st)
          (conn := (setRC4Key (sessionKey (heap st conn)) ((heap st conn)\<lparr>isSecureServer := True\<rparr>))
                     \<lparr>checkForSecureServer := False\<rparr>)\<rparr>"
  using assms by (simp add: secureServerCheck_def Let_def)

lemma secure_idle:
  "secureServerStationURL (heap st conn) = None \<or> \<not> checkForSecureServer (heap st conn)
   \<Longrightarrow> secureServerCheck env conn st = st"
  by (auto simp: secureServerCheck_def Let_def split: option.splits)

lemma find_app:
  "find P (xs @ ys) = (case find P xs of None \<Rightarrow> find P ys | Some x \<Rightarrow> Some x)"
  by (induction xs) auto

lemma find_no: "find P xs = None \<longleftrightarrow> list_all (\<lambda>q. \<not> P q) xs"
  by (induction xs) auto

lemma findLast_Some:
  "findLast P xs = Some r \<longleftrightarrow>
     (\<exists>pre post. xs = pre @ r # post \<and> P r \<and> list_all (\<lambda>q. \<not> P q) post)"
proof
  assume "findLast P xs = Some r"
  then have "find P (rev xs) = Some r" by (simp add: findLast_def)
  then show "\<exists>pre post. xs = pre @ r # post \<and> P r \<and> list_all (\<lambda>q. \<not> P q) post"
  proof (induction xs rule: rev_induct)
    case Nil
    then show ?case by simp
  next
    case (snoc x xs)
    show ?case
    proof (cases "P x")
      case True
      with snoc.prems have "x = r" by simp
      with True show ?thesis by (intro exI [of _ xs] exI [of _ "[]"]) simp
    next
      case False
      with snoc.prems have "find P (rev xs) = Some r" by simp
      from snoc.IH [OF this] obtain pre post where
        "xs = pre @ r # post" "P r" "list_all (\<lambda>q. \<not> P q) post" by blast
      with False show ?thesis
        by (intro exI [of _ pre] exI [of _ "post @ [x]"]) simp
    qed
  qed
next
  assume "\<exists>pre post. xs = pre @ r # post \<and> P r \<and> list_all (\<lambda>q. \<not> P q) post"
  then obtain pre post where xs: "xs = pre @ r # post" and r: "P r"
    and post: "list_all (\<lambda>q. \<not> P q) post" by blast
  have "find P (rev post) = None"
    using post by (simp add: find_no)
  then have "find P (rev post @ r # rev pre) = Some r"
    using r by (simp add: find_app)
  then show "findLast P xs = Some r"
    by (simp add: findLast_def xs)
qed

lemma findLast_None: "findLast P xs = None \<longleftrightarrow> list_all (\<lambda>q. \<not> P q) xs"
  by (simp add: findLast_def find_no)

lemma findLast_snoc: "P x \<Longrightarrow> findLast P (xs @ [x]) = Some x"
  by (simp add: findLast_def)

lemma register_registry:
  "connections (register nc conn st) = connections st @ (if nc then [conn] else [])
   \<and> nextRef (register nc conn st) = nextRef st"
  by (simp add: register_def)

lemma secure_registry:
  "(connections (secureServerCheck env conn st) = connections st
      \<and> nextRef (secureServerCheck env conn st) = nextRef st)
   \<or> (connections (secureServerCheck env conn st) = connections st @ [nextRef st]
      \<and> nextRef (secureServerCheck env conn st) = nextRef st + 1)"
  by (simp add: secureServerCheck_def Let_def split: option.splits)

lemma afterCarve_registry:
  assumes "conn < nextRef st" and "wf_registry st"
  shows "prefix (connections st) (connections (afterCarve env nc conn p st))
         \<and> wf_registry (afterCarve env nc conn p st)
         \<and> nextRef st \<le> nextRef (afterCarve env nc conn p st)"
proof -
  define st2 where "st2 = deliver env conn p (register nc conn st)"
  have a: "connections st2 = connections st @ (if nc then [conn] else [])"
    and b: "nextRef st2 = nextRef st"
    by (simp_all add: st2_def deliver_def register_def)
  have c: "afterCarve env nc conn p st
            = (secureServerCheck env conn st2)\<lparr>events := events (secureServerCheck env conn st2) @ [PacketEvent p]\<rparr>"
    by (simp add: afterCarve_def st2_def Let_def)
  show ?thesis
    using secure_registry [of env conn st2] assms
    by (auto simp: c a b wf_registry_def list_all_iff less_Suc_eq)
qed

lemma frameLoop_registry:
  assumes "conn < nextRef st" and "wf_registry st"
  shows "prefix (connections st) (connections (stateOf (frameLoop env udp conn nc s st)))
         \<and> wf_registry (stateOf (frameLoop env udp conn nc s st))"
  using assms
proof (induction env udp conn nc s st rule: frameLoop.induct)
  case (1 env udp conn nc s st)
  show ?case
  proof (cases "hasDataLeft s")
    case False
    then show ?thesis
      using "1.prems" by (subst frameLoop.simps, subst (2) frameLoop.simps) (simp add: stateOf_def)
  next
    case True
    show ?thesis
    proof (cases "carve udp conn s")
      case (Carved p s')
      from afterCarve_registry [OF "1.prems", of env nc p]
      have x: "prefix (connections st) (connections (afterCarve env nc conn p st))"
        and y: "wf_registry (afterCarve env nc conn p st)"
        and z: "conn < nextRef (afterCarve env nc conn p st)"
        using "1.prems" by auto
      from "1.IH" [OF True Carved z y]
      have "prefix (connections (afterCarve env nc conn p st))
              (connections (stateOf (frameLoop env udp conn nc s' (afterCarve env nc conn p st))))"
        and w: "wf_registry (stateOf (frameLoop env udp conn nc s' (afterCarve env nc conn p st)))"
        by auto
      with x have "prefix (connections st)
              (connections (stateOf (frameLoop env udp conn nc s' (afterCarve env nc conn p st))))"
        by (meson prefix_order.trans)
      moreover have "frameLoop env udp conn nc s st
          = frameLoop env udp conn nc s' (afterCarve env nc conn p st)"
        by (subst frameLoop.simps) (simp add: True Carved)
      ultimately show ?thesis using w by simp
    next
      case (Discarded x)
      have "frameLoop env udp conn nc s st = Returned st"
        by (subst frameLoop.simps) (simp add: True Discarded)
      then show ?thesis using "1.prems" by (simp add: stateOf_def)
    next
      case (Raised e)
      have "frameLoop env udp conn nc s st = Threw e st"
        by (subst frameLoop.simps) (simp add: True Raised)
      then show ?thesis using "1.prems" by (simp add: stateOf_def)
    qed
  qed
qed

lemma handlePacket_registry:
  assumes "wf_registry st"
  shows "prefix (connections st) (connections (stateOf (handlePacket env frame st)))
         \<and> wf_registry (stateOf (handlePacket env frame st))"
proof (cases "parseUDPPacket frame")
  case (Inl e)
  then show ?thesis using assms by (simp add: handlePacket_def stateOf_def)
next
  case (Inr r)
  show ?thesis
  proof (cases r)
    case None
    then show ?thesis using assms Inr by (simp add: handlePacket_def stateOf_def)
  next
    case (Some udp)
    obtain d ca sa where dir: "direction env udp = (d, ca, sa)"
      by (cases "direction env udp") auto
    show ?thesis
    proof (cases "lookupConnection d st")
      case None
      define st1 where "st1 = st\<lparr>heap := (heap st)
                               (nextRef st := (Connection env d)
                                  \<lparr>clientAddress := ca, serverAddress := sa\<rparr>),
                             nextRef := nextRef st + 1\<rparr>"
      have e: "handlePacket env frame st
          = frameLoop env (payload udp) (nextRef st) True (Stream (payload udp) None) st1"
        by (simp add: handlePacket_def Inr Some dir None Let_def st1_def)
      have "nextRef st < nextRef st1" "wf_registry st1" "connections st1 = connections st"
        using assms by (auto simp: st1_def wf_registry_def list_all_iff)
      with frameLoop_registry [of "nextRef st" st1 env "payload udp" True "Stream (payload udp) None"]
      show ?thesis by (simp add: e)
    next
      case (Some conn)
      then have "conn \<in> set (connections st)"
        by (auto simp: lookupConnection_def findLast_Some)
      then have lt: "conn < nextRef st"
        using assms by (simp add: wf_registry_def list_all_iff)
      have e: "handlePacket env frame st
          = frameLoop env (payload udp) conn False (Stream (payload udp) None) st"
        using Inr \<open>r = Some udp\<close> by (simp add: handlePacket_def dir Some)
      show ?thesis
        using frameLoop_registry [OF lt assms] by (simp add: e)
    qed
  qed
qed

section \<open>Secure-server promotion\<close>

text \<open>
  Claim C2. When the secure-server check fires for a connection (the station URL is
  present and \<open>checkForSecureServer\<close> is set): if the station URL's \<open>ip:port\<close> differs
  from the connection's discriminator, exactly one connection is created and appended to
  the registry, with that \<open>ip:port\<close> as discriminator, \<open>isSecureServer\<close> true, both
  cipher states seeded from the source's session key, and the access key, access key
  sum, signature key, session key, version and title of the source; if it is the same
  \<open>ip:port\<close>, nothing is created, and the connection itself gets \<open>isSecureServer\<close> true
  and both cipher states seeded from its session key. In both cases
  \<open>checkForSecureServer\<close> of the connection is false afterwards, no other connection
  changes, and nothing is emitted.
\<close>

theorem secure_server_promotion:
  assumes url: "secureServerStationURL (heap st conn) = Some url"
    and chk: "checkForSecureServer (heap st conn)"
  shows "let c = heap st conn;
             secureDiscriminator = address url @ '':'' @ port url;
             st' = secureServerCheck env conn st;
             new = heap st' (nextRef st)
         in (discriminator c \<noteq> secureDiscriminator \<longrightarrow>
               connections st' = connections st @ [nextRef st]
               \<and> nextRef st' = nextRef st + 1
               \<and> discriminator new = secureDiscriminator
               \<and> isSecureServer new
               \<and> rc4ClientState new = RC4 (sessionKey c) 0
               \<and> rc4ServerState new = RC4 (sessionKey c) 0
               \<and> accessKey new = accessKey c
               \<and> accessKeySum new = accessKeySum c
               \<and> signatureKey new = signatureKey c
               \<and> sessionKey new = sessionKey c
               \<and> prudpVersion new = prudpVersion c
               \<and> title new = title c
               \<and> clientAddress new = clientAddress c
               \<and> serverAddress new = secureDiscriminator
               \<and> (\<forall>r. r \<noteq> nextRef st \<and> r \<noteq> conn \<longrightarrow> heap st' r = heap st r)
               \<and> (conn \<noteq> nextRef st \<longrightarrow>
                     heap st' conn = c\<lparr>checkForSecureServer := False\<rparr>))
            \<and> (discriminator c = secureDiscriminator \<longrightarrow>
               connections st' = connections st
               \<and> nextRef st' = nextRef st
               \<and> heap st' conn
                   = c\<lparr>isSecureServer := True,
                       rc4ClientState := RC4 (sessionKey c) 0,
                       rc4ServerState := RC4 (sessionKey c) 0,
                       checkForSecureServer := False\<rparr>
               \<and> (\<forall>r. r \<noteq> conn \<longrightarrow> heap st' r = heap st r))
            \<and> \<not> checkForSecureServer (heap st' conn)
            \<and> events st' = events st"
proof (cases "discriminator (heap st conn) = address url @ '':'' @ port url")
  case True
  show ?thesis
    using True by (simp add: secure_same [OF url chk True] Let_def setRC4Key_def)
next
  case False
  show ?thesis
    using False
    by (simp add: secure_other [OF url chk False] Let_def setRC4Key_def Connection_def)
qed

text \<open>
  The connection of \<open>reconnectState\<close> is promoted to 8.8.4.4:60001, another address;
  the one of \<open>sameSocketState\<close> to its own.
\<close>

theorem secure_server_promotion_witness:
  "secureServerStationURL (heap reconnectState 0) = Some \<lparr>address = ''8.8.4.4'', port = ''60001''\<rparr>
   \<and> checkForSecureServer (heap reconnectState 0)
   \<and> connections (secureServerCheck exampleEnv 0 reconnectState) = [0, 1, 2]
   \<and> isSecureServer (heap (secureServerCheck exampleEnv 0 reconnectState) 2)
   \<and> sessionKey (heap (secureServerCheck exampleEnv 0 reconnectState) 2) = [1, 2, 3, 4]
   \<and> rc4ClientState (heap (secureServerCheck exampleEnv 0 reconnectState) 2) = RC4 [1, 2, 3, 4] 0
   \<and> title (heap (secureServerCheck exampleEnv 0 reconnectState) 2) = ''Sample''
   \<and> \<not> checkForSecureServer (heap (secureServerCheck exampleEnv 0 reconnectState) 0)
   \<and> secureServerStationURL (heap sameSocketState 0) = Some \<lparr>address = ''8.8.8.8'', port = ''60000''\<rparr>
   \<and> checkForSecureServer (heap sameSocketState 0)
   \<and> connections (secureServerCheck exampleEnv 0 sameSocketState) = [0]
   \<and> isSecureServer (heap (secureServerCheck exampleEnv 0 sameSocketState) 0)
   \<and> rc4ServerState (heap (secureServerCheck exampleEnv 0 sameSocketState) 0) = RC4 [1, 2, 3, 4] 0
   \<and> \<not> checkForSecureServer (heap (secureServerCheck exampleEnv 0 sameSocketState) 0)"
proof -
  have a: "secureServerStationURL (heap reconnectState 0)
             = Some \<lparr>address = ''8.8.4.4'', port = ''60001''\<rparr>"
    and b: "checkForSecureServer (heap reconnectState 0)"
    by (simp_all add: reconnectState_def authConnection_def)
  have c: "secureServerStationURL (heap sameSocketState 0)
             = Some \<lparr>address = ''8.8.8.8'', port = ''60000''\<rparr>"
    and d: "checkForSecureServer (heap sameSocketState 0)"
    by (simp_all add: sameSocketState_def authConnection_def)
  show ?thesis
    using a b c d secure_server_promotion [OF a b, of exampleEnv]
      secure_server_promotion [OF c d, of exampleEnv]
    by (simp add: Let_def reconnectState_def sameSocketState_def authConnection_def
        blankConnection_def)
qed

section \<open>Lookup takes the latest connection\<close>

text \<open>
  Claim C6. For every registry and discriminator, the lookup returns the entry of the
  registry that matches the discriminator and has no matching entry behind it, the one
  registered last, and nothing exactly when no entry matches. \<open>handlePacket\<close> only
  appends to the registry: the registry before is a prefix of the registry after, so
  every historical record stays. When a promotion creates a connection for a
  discriminator, also one that older records carry, the new record is appended under a
  reference no older record has, and the lookup of that discriminator returns the new
  record.
\<close>

theorem lookup_most_recent:
  assumes wf: "wf_registry st"
  shows "(\<forall>r. lookupConnection d st = Some r \<longleftrightarrow>
            (\<exists>pre post. connections st = pre @ r # post
                \<and> discriminator (heap st r) = d
                \<and> list_all (\<lambda>q. discriminator (heap st q) \<noteq> d) post))
         \<and> (lookupConnection d st = None \<longleftrightarrow>
              list_all (\<lambda>q. discriminator (heap st q) \<noteq> d) (connections st))
         \<and> prefix (connections st) (connections (stateOf (handlePacket env frame st)))
         \<and> wf_registry (stateOf (handlePacket env frame st))
         \<and> (secureServerStationURL (heap st conn) = Some url
              \<and> checkForSecureServer (heap st conn)
              \<and> discriminator (heap st conn) \<noteq> address url @ '':'' @ port url
            \<longrightarrow> connections (secureServerCheck env conn st) = connections st @ [nextRef st]
                \<and> nextRef st \<notin> set (connections st)
                \<and> lookupConnection (address url @ '':'' @ port url)
                     (secureServerCheck env conn st) = Some (nextRef st))"
proof -
  have fresh: "nextRef st \<notin> set (connections st)"
    using wf by (auto simp: wf_registry_def list_all_iff)
  have promo: "connections (secureServerCheck env conn st) = connections st @ [nextRef st]
       \<and> lookupConnection (address url @ '':'' @ port url) (secureServerCheck env conn st)
           = Some (nextRef st)"
    if u: "secureServerStationURL (heap st conn) = Some url"
      and c: "checkForSecureServer (heap st conn)"
      and n: "discriminator (heap st conn) \<noteq> address url @ '':'' @ port url"
  proof -
    have "discriminator (heap (secureServerCheck env conn st) (nextRef st))
            = address url @ '':'' @ port url"
      by (simp add: secure_other [OF u c n] Let_def setRC4Key_def Connection_def)
    moreover have "connections (secureServerCheck env conn st) = connections st @ [nextRef st]"
      by (simp add: secure_other [OF u c n] Let_def)
    ultimately show ?thesis
      by (simp add: lookupConnection_def findLast_snoc)
  qed
  have a: "\<forall>r. lookupConnection d st = Some r \<longleftrightarrow>
            (\<exists>pre post. connections st = pre @ r # post
                \<and> discriminator (heap st r) = d
                \<and> list_all (\<lambda>q. discriminator (heap st q) \<noteq> d) post)"
    by (simp add: lookupConnection_def findLast_Some)
  have b: "lookupConnection d st = None \<longleftrightarrow>
              list_all (\<lambda>q. discriminator (heap st q) \<noteq> d) (connections st)"
    by (simp add: lookupConnection_def findLast_None)
  show ?thesis
    using a b fresh promo handlePacket_registry [OF wf, of env frame] by blast
qed

text \<open>
  In \<open>reconnectState\<close> the lookup of 8.8.4.4:60001 finds the older secure connection;
  after the promotion it finds the new one, and both are in the registry.
\<close>

theorem lookup_most_recent_witness:
  "wf_registry reconnectState
   \<and> lookupConnection ''8.8.4.4:60001'' reconnectState = Some 1
   \<and> connections (secureServerCheck exampleEnv 0 reconnectState) = [0, 1, 2]
   \<and> lookupConnection ''8.8.4.4:60001'' (secureServerCheck exampleEnv 0 reconnectState) = Some 2
   \<and> prefix [0, 1] (connections (stateOf (handlePacket exampleEnv twoPacketFrame reconnectState)))"
proof -
  have wf: "wf_registry reconnectState"
    by (simp add: wf_registry_def reconnectState_def)
  have old: "lookupConnection ''8.8.4.4:60001'' reconnectState = Some 1"
    by (simp add: lookupConnection_def findLast_def reconnectState_def authConnection_def
        oldSecureConnection_def blankConnection_def)
  have pre: "secureServerStationURL (heap reconnectState 0)
               = Some \<lparr>address = ''8.8.4.4'', port = ''60001''\<rparr>
     \<and> checkForSecureServer (heap reconnectState 0)
     \<and> discriminator (heap reconnectState 0) \<noteq> ''8.8.4.4'' @ '':'' @ ''60001''"
    by (simp add: reconnectState_def authConnection_def blankConnection_def)
  show ?thesis
    using wf old pre
      lookup_most_recent [OF wf, of "''8.8.4.4:60001''" exampleEnv twoPacketFrame 0
        "\<lparr>address = ''8.8.4.4'', port = ''60001''\<rparr>"]
    by (simp add: reconnectState_def)
qed

section \<open>Direction inference\<close>

text \<open>
  Claim C5. If the source address of a UDP packet is private, the packet goes from the
  client to the server: the discriminator and the server address are the destination
  \<open>ip:port\<close> and the client address is the source \<open>ip:port\<close>. Otherwise it goes from
  the server to the client: the discriminator and the server address are the source
  \<open>ip:port\<close> and the client address is the destination \<open>ip:port\<close>. So a packet from
  the client to the server (its source is private) and the packet that answers it from
  the server to the client (source and destination exchanged, its source not private)
  have the same discriminator, and the lookup gives the same connection for both.
\<close>

theorem direction_inference:
  "(isPrivateIP env (source u) \<longrightarrow>
      direction env u
        = (destination u @ '':'' @ string_of_nat (destinationPort u),
           source u @ '':'' @ string_of_nat (sourcePort u),
           destination u @ '':'' @ string_of_nat (destinationPort u)))
   \<and> (\<not> isPrivateIP env (source u) \<longrightarrow>
      direction env u
        = (source u @ '':'' @ string_of_nat (sourcePort u),
           destination u @ '':'' @ string_of_nat (destinationPort u),
           source u @ '':'' @ string_of_nat (sourcePort u)))
   \<and> (isPrivateIP env (source u) \<and> \<not> isPrivateIP env (source v)
       \<and> source v = destination u \<and> sourcePort v = destinationPort u
       \<and> destination v = source u \<and> destinationPort v = sourcePort u
      \<longrightarrow> fst (direction env v) = fst (direction env u)
          \<and> direction env v = direction env u
          \<and> lookupConnection (fst (direction env v)) st
              = lookupConnection (fst (direction env u)) st)"
proof -
  have a: "isPrivateIP env (source u) \<Longrightarrow>
      direction env u
        = (destination u @ '':'' @ string_of_nat (destinationPort u),
           source u @ '':'' @ string_of_nat (sourcePort u),
           destination u @ '':'' @ string_of_nat (destinationPort u))" for u
    by (simp add: direction_def Let_def)
  have b: "\<not> isPrivateIP env (source u) \<Longrightarrow>
      direction env u
        = (source u @ '':'' @ string_of_nat (sourcePort u),
           destination u @ '':'' @ string_of_nat (destinationPort u),
           source u @ '':'' @ string_of_nat (sourcePort u))" for u
    by (simp add: direction_def Let_def)
  have c: "direction env v = direction env u"
    if "isPrivateIP env (source u)" "\<not> isPrivateIP env (source v)"
      "source v = destination u" "sourcePort v = destinationPort u"
      "destination v = source u" "destinationPort v = sourcePort u"
    using that a [of u] b [of v] by simp
  have d: "isPrivateIP env (source u) \<and> \<not> isPrivateIP env (source v)
       \<and> source v = destination u \<and> sourcePort v = destinationPort u
       \<and> destination v = source u \<and> destinationPort v = sourcePort u
      \<longrightarrow> fst (direction env v) = fst (direction env u)
          \<and> direction env v = direction env u
          \<and> lookupConnection (fst (direction env v)) st
              = lookupConnection (fst (direction env u)) st"
  proof
    assume "isPrivateIP env (source u) \<and> \<not> isPrivateIP env (source v)
       \<and> source v = destination u \<and> sourcePort v = destinationPort u
       \<and> destination v = source u \<and> destinationPort v = sourcePort u"
    then have "direction env v = direction env u"
      using c by blast
    then show "fst (direction env v) = fst (direction env u)
          \<and> direction env v = direction env u
          \<and> lookupConnection (fst (direction env v)) st
              = lookupConnection (fst (direction env u)) st"
      by simp
  qed
  show ?thesis
    using a [of u] b [of u] d by blast
qed

theorem direction_inference_witness:
  "isPrivateIP exampleEnv (source clientFrame)
   \<and> \<not> isPrivateIP exampleEnv (source serverFrame)
   \<and> source serverFrame = destination clientFrame
   \<and> sourcePort serverFrame = destinationPort clientFrame
   \<and> destination serverFrame = source clientFrame
   \<and> destinationPort serverFrame = sourcePort clientFrame
   \<and> direction exampleEnv clientFrame
       = (''8.8.8.8:60000'', ''192.168.0.13:50000'', ''8.8.8.8:60000'')
   \<and> direction exampleEnv serverFrame
       = (''8.8.8.8:60000'', ''192.168.0.13:50000'', ''8.8.8.8:60000'')
   \<and> lookupConnection (fst (direction exampleEnv serverFrame)) reconnectState = Some 0
   \<and> lookupConnection (fst (direction exampleEnv clientFrame)) reconnectState = Some 0"
proof -
  have h: "isPrivateIP exampleEnv (source clientFrame)
   \<and> \<not> isPrivateIP exampleEnv (source serverFrame)
   \<and> source serverFrame = destination clientFrame
   \<and> sourcePort serverFrame = destinationPort clientFrame
   \<and> destination serverFrame = source clientFrame
   \<and> destinationPort serverFrame = sourcePort clientFrame"
    by (simp add: exampleEnv_def clientFrame_def serverFrame_def)
  have n: "string_of_nat 60000 = ''60000''" "string_of_nat 50000 = ''50000''"
    by (simp_all add: string_of_nat.simps digit_def)
  have l: "lookupConnection ''8.8.8.8:60000'' reconnectState = Some 0"
    by (simp add: lookupConnection_def findLast_def reconnectState_def authConnection_def
        oldSecureConnection_def blankConnection_def)
  show ?thesis
    using h direction_inference [of exampleEnv clientFrame serverFrame reconnectState]
    by (simp add: clientFrame_def serverFrame_def n l)
qed

section \<open>Facts about the handler table\<close>

lemma Handlers_dom: "Handlers m = None \<longleftrightarrow> m < 1 \<or> 22 < m"
proof -
  have "dom Handlers = {1..22}"
    unfolding Handlers_def dom_map_of_conv_image_fst
    by (simp add: atLeastAtMost_upt upt_rec eval_nat_numeral)
  then have "m \<in> dom Handlers \<longleftrightarrow> 1 \<le> m \<and> m \<le> 22" by simp
  then show ?thesis by (auto simp: domIff)
qed

lemma MethodNames_eq: "MethodNames = Handlers"
  by (simp add: MethodNames_def Handlers_def Methods_def)

lemma Handlers_8: "Handlers 8 = Some GetBalanceRequest"
  by (simp add: Handlers_def)

section \<open>Unknown methods\<close>

text \<open>
  Claim C9. For a message whose method id has no entry in \<open>Handlers\<close> (or is
  undefined), the dispatcher writes one unknown-method diagnostic and returns normally:
  no error, and the packet as it was, with no decoded data attached. For a method id
  with an entry, the handler is called with the message and a stream over the message
  body; what it returns is attached to the packet as \<open>rmcData\<close>, and what it raises
  is raised. The table has an entry exactly for the method ids 1 to 22.
\<close>

theorem unknown_method_reported:
  "(methodId (rmcMessage packet) = None \<longrightarrow>
      ServiceItem_handlePacket cat packet log = Inr (packet, log @ [UnknownMethod None None]))
   \<and> (\<forall>m. methodId (rmcMessage packet) = Some m \<and> Handlers m = None \<longrightarrow>
      ServiceItem_handlePacket cat packet log
        = Inr (packet, log @ [UnknownMethod (Some m) None]))
   \<and> (\<forall>m h. methodId (rmcMessage packet) = Some m \<and> Handlers m = Some h \<longrightarrow>
      ServiceItem_handlePacket cat packet log
        = (case handler cat h (rmcMessage packet)
                  (Stream (body (rmcMessage packet)) (packet_connection packet)) of
             Inl e \<Rightarrow> Inl e
           | Inr decoded \<Rightarrow> Inr (packet\<lparr>rmcData := Some decoded\<rparr>, log)))
   \<and> (\<forall>m. Handlers m = None \<longleftrightarrow> m < 1 \<or> 22 < m)"
proof -
  have a: "methodId (rmcMessage packet) = None \<Longrightarrow>
      ServiceItem_handlePacket cat packet log = Inr (packet, log @ [UnknownMethod None None])"
    by (simp add: ServiceItem_handlePacket_def)
  have b: "methodId (rmcMessage packet) = Some m \<Longrightarrow> Handlers m = None \<Longrightarrow>
      ServiceItem_handlePacket cat packet log
        = Inr (packet, log @ [UnknownMethod (Some m) None])" for m
    by (simp add: ServiceItem_handlePacket_def MethodNames_eq)
  have c: "methodId (rmcMessage packet) = Some m \<Longrightarrow> Handlers m = Some h \<Longrightarrow>
      ServiceItem_handlePacket cat packet log
        = (case handler cat h (rmcMessage packet)
                  (Stream (body (rmcMessage packet)) (packet_connection packet)) of
             Inl e \<Rightarrow> Inl e
           | Inr decoded \<Rightarrow> Inr (packet\<lparr>rmcData := Some decoded\<rparr>, log))" for m h
    by (simp add: ServiceItem_handlePacket_def Let_def)
  show ?thesis
    using a b c Handlers_dom by blast
qed

text \<open>
  Method 0x17 has no handler: one diagnostic, the packet unchanged. Method 0x08 has one:
  the request class of \<open>GetBalanceRequest\<close> is built from the stream over the body.
\<close>

theorem unknown_method_reported_witness:
  "methodId (rmcMessage unknownPacket) = Some 0x17
   \<and> Handlers 0x17 = None
   \<and> ServiceItem_handlePacket sampleCatalog unknownPacket []
       = Inr (unknownPacket, [UnknownMethod (Some 0x17) None])
   \<and> methodId (rmcMessage balancePacket) = Some 0x08
   \<and> Handlers 0x08 = Some GetBalanceRequest
   \<and> ServiceItem_handlePacket sampleCatalog balancePacket []
       = Inr (balancePacket\<lparr>rmcData := Some (GetBalanceRequest, True, [1, 2])\<rparr>, [])"
proof -
  have u: "methodId (rmcMessage unknownPacket) = Some 0x17"
    by (simp add: unknownPacket_def)
  have k: "methodId (rmcMessage balancePacket) = Some 0x08"
    by (simp add: balancePacket_def)
  have n: "Handlers 0x17 = None"
    using unknown_method_reported [of unknownPacket sampleCatalog "[]"] by simp
  have h: "handler sampleCatalog GetBalanceRequest (rmcMessage balancePacket)
             (Stream (body (rmcMessage balancePacket)) (packet_connection balancePacket))
           = Inr (GetBalanceRequest, True, [1, 2])"
    by (simp add: handler_def sampleCatalog_def balancePacket_def Stream_def)
  show ?thesis
    using u k n h Handlers_8
      unknown_method_reported [of unknownPacket sampleCatalog "[]"]
      unknown_method_reported [of balancePacket sampleCatalog "[]"]
    by simp
qed

end
